theory Spec2Isabelle
  imports Complex_Main
begin

section \<open>Data model of the notebook\<close>

text \<open>
  The notebook \<^verbatim>\<open>coffea-to-cabinetry.ipynb\<close> holds one class (\<^verbatim>\<open>MyProcessor\<close>), one
  function (\<^verbatim>\<open>build_single_histogram\<close>) and an example made of three cells. The
  libraries it calls (\<^verbatim>\<open>eval\<close>, awkward, numpy, coffea) are not part of it; each of
  their operations used by the notebook is modelled below by what the notebook relies on.

  Exceptions are values: the class of the exception, and where it was raised. \<open>Explicit\<close>
  marks an exception raised by a \<^verbatim>\<open>raise\<close> statement of the notebook itself, \<open>Implicit\<close>
  one raised inside something the notebook calls: a builtin (\<^verbatim>\<open>eval\<close> on \<^verbatim>\<open>None\<close>, a
  dictionary lookup, a call with a keyword given twice) or a library (coffea, awkward,
  numpy, the evaluated expression, the file access). \<open>Exception\<close> stands for an exception
  whose class the model does not determine.
\<close>

datatype exception = ValueError | TypeError | KeyError | IndexError | Exception

datatype error = Explicit exception | Implicit exception


text \<open>
  One-dimensional arrays, the values of the expressions that the notebook evaluates:
  booleans, integers or floats.
\<close>

datatype array = BoolArray "bool list" | IntArray "int list" | FloatArray "real list"

fun len :: "array \<Rightarrow> nat" where
  "len (BoolArray bs) = length bs"
| "len (IntArray ns) = length ns"
| "len (FloatArray xs) = length xs"

text \<open>numpy reads a boolean as 0 or 1 where a number is wanted.\<close>

fun as_num :: "array \<Rightarrow> real list" where
  "as_num (BoolArray bs) = map (\<lambda>b. if b then 1 else 0) bs"
| "as_num (IntArray ns) = map real_of_int ns"
| "as_num (FloatArray xs) = xs"

definition np_ones :: "nat \<Rightarrow> array" where
  "np_ones n = FloatArray (replicate n 1)"

definition np_sqrt :: "real list \<Rightarrow> real list" where
  "np_sqrt xs = map sqrt xs"

text \<open>\<^verbatim>\<open>pathlib.Path\<close> and its string form \<^verbatim>\<open>str(p)\<close>.\<close>

datatype path = Path string

fun str :: "path \<Rightarrow> string" where
  "str (Path s) = s"

text \<open>The dictionaries of the notebook, one record per kind of dictionary.\<close>

record channel =
  ch_name :: string
  variable :: string
  observable_label :: string
  binning :: "real list"

record template =
  t_name :: string
  weight :: "string option"
  selection_filter :: "string option"

record sample =
  treename :: string
  files :: "string list"

text \<open>
  A chunk of events as the backend hands it to \<^verbatim>\<open>process\<close>: the dataset of its
  metadata and its rows. The type of a row is left open.
\<close>

record 'row events =
  metadata_dataset :: string
  rows :: "'row list"

text \<open>
  What the notebook asks of Python and awkward on the events, taken as given: the value
  of an expression over rows (\<open>None\<close> when its evaluation raises), and the rows that
  \<^verbatim>\<open>events[index]\<close> selects for an index array (\<open>None\<close> when awkward refuses the
  index). Every statement below holds for whatever these two functions are.
\<close>

record 'row library =
  expression :: "string \<Rightarrow> 'row list \<Rightarrow> array option"
  indexing :: "'row list \<Rightarrow> array \<Rightarrow> 'row list option"

subsection \<open>Histograms\<close>

text \<open>
  A \<^verbatim>\<open>hist.Hist\<close> with the categorical axes \<^verbatim>\<open>dataset\<close> and \<^verbatim>\<open>template\<close> and one
  binned axis. Its content is determined by the calls to \<^verbatim>\<open>fill\<close> it has received, so
  the model keeps those calls and computes the sums from them.
\<close>

record fill_call =
  fill_dataset :: string
  fill_template :: string
  fill_weight :: "real list"
  fill_values :: "real list"

record hist =
  axis_name :: string
  axis_label :: string
  edges :: "real list"
  fills :: "fill_call list"

definition empty_hist :: "channel \<Rightarrow> hist" where
  "empty_hist ch =
     \<lparr>axis_name = variable ch, axis_label = observable_label ch,
      edges = binning ch, fills = []\<rparr>"

text \<open>
  \<^verbatim>\<open>hist.Hist("events", hist.Cat(..), hist.Cat(..), hist.Bin(variable, label, binning))\<close>.
  coffea refuses an axis named \<^verbatim>\<open>weight\<close> and a binning that is not sorted, both with
  \<^verbatim>\<open>ValueError\<close>, and then reads the first edge, which an empty binning does not have.
\<close>

definition new_hist :: "channel \<Rightarrow> error + hist" where
  "new_hist ch =
     (if variable ch = ''weight'' then Inl (Implicit ValueError)
      else if \<not> sorted (binning ch) then Inl (Implicit ValueError)
      else if binning ch = [] then Inl (Implicit IndexError)
      else Inr (empty_hist ch))"

text \<open>
  \<^verbatim>\<open>fill(dataset=.., template=.., weight=.., **{variable: observables})\<close>: the keyword
  of the observable has to be the name of the binned axis, and weights and observables
  need the same length; coffea and numpy raise \<^verbatim>\<open>ValueError\<close> otherwise.
\<close>

definition fill :: "hist \<Rightarrow> string \<Rightarrow> string \<Rightarrow> array \<Rightarrow> string \<Rightarrow> array \<Rightarrow> error + hist" where
  "fill h ds tn weights var observables =
     (if var \<noteq> axis_name h then Inl (Implicit ValueError)
      else if len weights \<noteq> len observables then Inl (Implicit ValueError)
      else Inr (h\<lparr>fills := fills h @
             [\<lparr>fill_dataset = ds, fill_template = tn,
               fill_weight = as_num weights, fill_values = as_num observables\<rparr>]\<rparr>))"

text \<open>Bin \<open>b\<close> of the edges \<open>es\<close> holds the values from edge \<open>b\<close> up to, not including, edge \<open>b + 1\<close>.\<close>

definition in_bin :: "real list \<Rightarrow> nat \<Rightarrow> real \<Rightarrow> bool" where
  "in_bin es b x = (es ! b \<le> x \<and> x < es ! Suc b)"

definition fill_sumw :: "real list \<Rightarrow> nat \<Rightarrow> fill_call \<Rightarrow> real" where
  "fill_sumw es b f =
     sum_list (map (\<lambda>(x, w). if in_bin es b x then w else 0)
                   (zip (fill_values f) (fill_weight f)))"

definition fill_sumw2 :: "real list \<Rightarrow> nat \<Rightarrow> fill_call \<Rightarrow> real" where
  "fill_sumw2 es b f =
     sum_list (map (\<lambda>(x, w). if in_bin es b x then w * w else 0)
                   (zip (fill_values f) (fill_weight f)))"

definition bin_sumw :: "real list \<Rightarrow> fill_call list \<Rightarrow> nat \<Rightarrow> real" where
  "bin_sumw es fs b = sum_list (map (fill_sumw es b) fs)"

definition bin_sumw2 :: "real list \<Rightarrow> fill_call list \<Rightarrow> nat \<Rightarrow> real" where
  "bin_sumw2 es fs b = sum_list (map (fill_sumw2 es b) fs)"

definition fills_of :: "hist \<Rightarrow> string \<times> string \<Rightarrow> fill_call list" where
  "fills_of h key = filter (\<lambda>f. (fill_dataset f, fill_template f) = key) (fills h)"

text \<open>
  \<^verbatim>\<open>h.values(sumw2=True)[key]\<close>: the sums of weights and of squared weights of every
  bin, for a pair of dataset and template that has been filled; any other pair is no key
  of the dictionary.
\<close>

definition hist_values :: "hist \<Rightarrow> string \<times> string \<Rightarrow> error + (real list \<times> real list)" where
  "hist_values h key =
     (let fs = fills_of h key; n = length (edges h) - 1
      in if fs = [] then Inl (Implicit KeyError)
         else Inr (map (bin_sumw (edges h) fs) [0..<n], map (bin_sumw2 (edges h) fs) [0..<n]))"

type_synonym accumulator = "string \<rightharpoonup> hist"

text \<open>\<^verbatim>\<open>identity()\<close>: the same histograms, emptied.\<close>

definition identity :: "accumulator \<Rightarrow> accumulator" where
  "identity acc = (\<lambda>k. map_option (\<lambda>h. h\<lparr>fills := []\<rparr>) (acc k))"

definition add_hist :: "hist \<Rightarrow> hist \<Rightarrow> hist" where
  "add_hist h1 h2 = h1\<lparr>fills := fills h1 @ fills h2\<rparr>"

text \<open>\<^verbatim>\<open>accumulator += other\<close> on a dictionary of histograms.\<close>

definition add_acc :: "accumulator \<Rightarrow> accumulator \<Rightarrow> accumulator" where
  "add_acc a b =
     (\<lambda>k. case a k of
            None \<Rightarrow> b k
          | Some h1 \<Rightarrow> (case b k of None \<Rightarrow> Some h1 | Some h2 \<Rightarrow> Some (add_hist h1 h2)))"

section \<open>MyProcessor\<close>

record processor =
  accumulator :: accumulator
  channel_info :: "channel list"
  template_info :: "(string \<times> template list) list"

text \<open>
  The loop of the constructor over the channels: it stores a new histogram under the
  name of each channel, a later channel replacing an earlier one of the same name, and
  ends with the first histogram that coffea refuses.
\<close>

fun init_accumulator :: "accumulator \<Rightarrow> channel list \<Rightarrow> error + accumulator" where
  "init_accumulator acc [] = Inr acc"
| "init_accumulator acc (ch # chs) =
     (case new_hist ch of
        Inl e \<Rightarrow> Inl e
      | Inr h \<Rightarrow> init_accumulator (acc(ch_name ch \<mapsto> h)) chs)"

text \<open>The constructor. Its arguments may be \<^verbatim>\<open>None\<close>; the guard is its first statement.\<close>

definition MyProcessor ::
  "channel list option \<Rightarrow> (string \<times> template list) list option \<Rightarrow> error + processor" where
  "MyProcessor ci ti =
     (case ci of
        None \<Rightarrow> Inl (Explicit ValueError)
      | Some chs \<Rightarrow>
          (case ti of
             None \<Rightarrow> Inl (Explicit ValueError)
           | Some tmpl \<Rightarrow>
               (case init_accumulator Map.empty chs of
                  Inl e \<Rightarrow> Inl e
                | Inr acc \<Rightarrow>
                    Inr \<lparr>accumulator = acc, channel_info = chs, template_info = tmpl\<rparr>)))"

text \<open>
  \<^verbatim>\<open>eval(source, {}, events)\<close>. The builtin raises \<^verbatim>\<open>TypeError\<close> when the source is
  \<^verbatim>\<open>None\<close>; otherwise the value is that of the expression.
\<close>

definition py_eval :: "'row library \<Rightarrow> string option \<Rightarrow> 'row list \<Rightarrow> error + array" where
  "py_eval lib source rs =
     (case source of
        None \<Rightarrow> Inl (Implicit TypeError)
      | Some s \<Rightarrow>
          (case expression lib s rs of None \<Rightarrow> Inl (Implicit Exception) | Some a \<Rightarrow> Inr a))"

text \<open>\<^verbatim>\<open>events[index]\<close>.\<close>

definition getitem :: "'row library \<Rightarrow> 'row list \<Rightarrow> array \<Rightarrow> error + 'row list" where
  "getitem lib rs a =
     (case indexing lib rs a of None \<Rightarrow> Inl (Implicit Exception) | Some chosen \<Rightarrow> Inr chosen)"

text \<open>
  The body of the loop over the templates, up to the call of \<^verbatim>\<open>fill\<close>: the weights
  and the observables of one template in one channel.
\<close>

definition fill_args ::
  "'row library \<Rightarrow> 'row events \<Rightarrow> channel \<Rightarrow> template
     \<Rightarrow> error + (array \<times> array)" where
  "fill_args lib events ch t =
     (case py_eval lib (selection_filter t) (rows events) of
        Inl e \<Rightarrow> Inl e
      | Inr selection_mask \<Rightarrow>
     (case getitem lib (rows events) selection_mask of
        Inl e \<Rightarrow> Inl e
      | Inr events_cut \<Rightarrow>
     (case py_eval lib (Some (variable ch)) events_cut of
        Inl e \<Rightarrow> Inl e
      | Inr observables \<Rightarrow>
     (case weight t of
        Some weight_expression \<Rightarrow>
          (case py_eval lib (Some weight_expression) events_cut of
             Inl e \<Rightarrow> Inl e
           | Inr weights \<Rightarrow> Inr (weights, observables))
      | None \<Rightarrow> Inr (np_ones (len observables), observables)))))"

text \<open>
  The whole body: \<^verbatim>\<open>out[channel_name].fill(dataset=.., template=.., weight=..,
  **{variable: observables})\<close> with those arrays. Python refuses the call with
  \<^verbatim>\<open>TypeError\<close> when the variable names an argument that the call already gives: one
  of the three keywords, or \<^verbatim>\<open>self\<close>.
\<close>

definition fill_template ::
  "'row library \<Rightarrow> 'row events \<Rightarrow> channel \<Rightarrow> accumulator \<Rightarrow> template
     \<Rightarrow> error + accumulator" where
  "fill_template lib events ch out t =
     (case fill_args lib events ch t of
        Inl e \<Rightarrow> Inl e
      | Inr (weights, observables) \<Rightarrow>
     (case out (ch_name ch) of
        None \<Rightarrow> Inl (Implicit KeyError)
      | Some h \<Rightarrow>
     (if variable ch \<in> set [''self'', ''dataset'', ''template'', ''weight'']
      then Inl (Implicit TypeError)
      else
     (case fill h (metadata_dataset events) (t_name t) weights (variable ch) observables of
        Inl e \<Rightarrow> Inl e
      | Inr h' \<Rightarrow> Inr (out(ch_name ch \<mapsto> h'))))))"

fun template_loop ::
  "'row library \<Rightarrow> 'row events \<Rightarrow> channel \<Rightarrow> accumulator
     \<Rightarrow> template list \<Rightarrow> error + accumulator" where
  "template_loop lib events ch out [] = Inr out"
| "template_loop lib events ch out (t # ts) =
     (case fill_template lib events ch out t of
        Inl e \<Rightarrow> Inl e
      | Inr out' \<Rightarrow> template_loop lib events ch out' ts)"

text \<open>
  The loop over the channels. \<^verbatim>\<open>self.template_info[dataset]\<close> is looked up inside
  it, once per channel.
\<close>

fun channel_loop ::
  "'row library \<Rightarrow> processor \<Rightarrow> 'row events \<Rightarrow> accumulator
     \<Rightarrow> channel list \<Rightarrow> error + accumulator" where
  "channel_loop lib self events out [] = Inr out"
| "channel_loop lib self events out (ch # chs) =
     (case map_of (template_info self) (metadata_dataset events) of
        None \<Rightarrow> Inl (Implicit KeyError)
      | Some ts \<Rightarrow>
          (case template_loop lib events ch out ts of
             Inl e \<Rightarrow> Inl e
           | Inr out' \<Rightarrow> channel_loop lib self events out' chs))"

definition process ::
  "'row library \<Rightarrow> processor \<Rightarrow> 'row events \<Rightarrow> error + accumulator" where
  "process lib self events =
     channel_loop lib self events (identity (accumulator self)) (channel_info self)"

definition postprocess :: "accumulator \<Rightarrow> accumulator" where
  "postprocess acc = acc"

section \<open>The backend\<close>

text \<open>
  \<^verbatim>\<open>processor.run_uproot_job(fileset, treename, processor_instance, executor,
  executor_args)\<close> belongs to coffea. A call is kept as a record of its five arguments.
  The executor is a function, as in Python, from the chunks, the function to run on each
  of them and the empty accumulator to the accumulated output.
\<close>

record 'row job =
  fileset :: "(string \<times> sample) list"
  job_treename :: "string option"
  processor_instance :: processor
  executor ::
    "'row events list \<Rightarrow> ('row events \<Rightarrow> error + accumulator) \<Rightarrow> accumulator \<Rightarrow> error + accumulator"
  executor_args :: "(string \<times> string) list"

text \<open>What the standard output receives, one value per \<^verbatim>\<open>print\<close>.\<close>

datatype line =
  Channel string | Dataset string | Template string | Yields "real list" | Stdev "real list"

text \<open>
  Everything outside the program that an operation could touch: the files (a path gives
  the trees of the file, a tree its chunks of rows), the standard output, and the jobs
  handed to the backend so far.
\<close>

record 'row world =
  file_store :: "string \<Rightarrow> (string \<Rightarrow> 'row list list option) option"
  stdout :: "line list"
  jobs :: "'row job list"

definition file_chunks ::
  "(string \<Rightarrow> (string \<Rightarrow> 'row list list option) option) \<Rightarrow> string \<Rightarrow> string \<Rightarrow> string
     \<Rightarrow> error + 'row events list" where
  "file_chunks st ds tree f =
     (case st f of
        None \<Rightarrow> Inl (Implicit Exception)
      | Some trees \<Rightarrow>
          (case trees tree of
             None \<Rightarrow> Inl (Implicit Exception)
           | Some cs \<Rightarrow> Inr (map (\<lambda>rs. \<lparr>metadata_dataset = ds, rows = rs\<rparr>) cs)))"

fun files_chunks ::
  "(string \<Rightarrow> (string \<Rightarrow> 'row list list option) option) \<Rightarrow> string \<Rightarrow> string \<Rightarrow> string list
     \<Rightarrow> error + 'row events list" where
  "files_chunks st ds tree [] = Inr []"
| "files_chunks st ds tree (f # fs) =
     (case file_chunks st ds tree f of
        Inl e \<Rightarrow> Inl e
      | Inr cs \<Rightarrow>
          (case files_chunks st ds tree fs of
             Inl e \<Rightarrow> Inl e
           | Inr others \<Rightarrow> Inr (cs @ others)))"

text \<open>
  The chunks of a file set, sample by sample and file by file. The tree is the
  \<^verbatim>\<open>treename\<close> argument, or the sample's own when the argument is \<^verbatim>\<open>None\<close>.
\<close>

fun fileset_chunks ::
  "(string \<Rightarrow> (string \<Rightarrow> 'row list list option) option) \<Rightarrow> string option
     \<Rightarrow> (string \<times> sample) list \<Rightarrow> error + 'row events list" where
  "fileset_chunks st tn [] = Inr []"
| "fileset_chunks st tn ((ds, s) # others) =
     (case files_chunks st ds (case tn of None \<Rightarrow> treename s | Some t \<Rightarrow> t) (files s) of
        Inl e \<Rightarrow> Inl e
      | Inr cs \<Rightarrow>
          (case fileset_chunks st tn others of
             Inl e \<Rightarrow> Inl e
           | Inr rest \<Rightarrow> Inr (cs @ rest)))"

text \<open>
  \<^verbatim>\<open>processor.iterative_executor\<close>: a loop over the items,
  \<^verbatim>\<open>accumulator += function(item)\<close>.
\<close>

fun iterative_executor ::
  "'item list \<Rightarrow> ('item \<Rightarrow> error + accumulator) \<Rightarrow> accumulator \<Rightarrow> error + accumulator" where
  "iterative_executor [] function acc = Inr acc"
| "iterative_executor (item # items) function acc =
     (case function item of
        Inl e \<Rightarrow> Inl e
      | Inr r \<Rightarrow> iterative_executor items function (add_acc acc r))"

definition run_uproot_job ::
  "'row library \<Rightarrow> 'row world \<Rightarrow> 'row job
     \<Rightarrow> (error + accumulator) \<times> 'row world" where
  "run_uproot_job lib w j =
     (let w' = w\<lparr>jobs := jobs w @ [j]\<rparr> in
      case fileset_chunks (file_store w) (job_treename j) (fileset j) of
        Inl e \<Rightarrow> (Inl e, w')
      | Inr items \<Rightarrow>
          (case executor j items (process lib (processor_instance j))
                  (identity (accumulator (processor_instance j))) of
             Inl e \<Rightarrow> (Inl e, w')
           | Inr acc \<Rightarrow> (Inr (postprocess acc), w')))"

section \<open>build_single_histogram\<close>

text \<open>
  The six arguments of the Python function follow the evaluator and the world. Python's
  defaults \<^verbatim>\<open>weight=None\<close> and \<^verbatim>\<open>selection_filter=None\<close> are the argument \<open>None\<close> here.
\<close>

definition build_single_histogram ::
  "'row library \<Rightarrow> 'row world \<Rightarrow> path list \<Rightarrow> string \<Rightarrow> string
     \<Rightarrow> real list \<Rightarrow> string option \<Rightarrow> string option
     \<Rightarrow> (error + (real list \<times> real list)) \<times> 'row world" where
  "build_single_histogram lib w ntuple_paths pos_in_file var bins wgt sel =
     (let samples =
            [(''generic_name'', \<lparr>treename = pos_in_file, files = map str ntuple_paths\<rparr>)];
          tmpl_info =
            [(''generic_name'',
              [\<lparr>t_name = ''generic_template_name'', weight = wgt, selection_filter = sel\<rparr>])];
          chan_info =
            [\<lparr>ch_name = ''generic_channel_name'', variable = var,
              observable_label = ''generic_label'', binning = bins\<rparr>]
      in case MyProcessor (Some chan_info) (Some tmpl_info) of
           Inl e \<Rightarrow> (Inl e, w)
         | Inr p \<Rightarrow>
             (case run_uproot_job lib w
                     \<lparr>fileset = samples, job_treename = None, processor_instance = p,
                      executor = iterative_executor,
                      executor_args = [(''schema'', ''BaseSchema'')]\<rparr> of
                (Inl e, w') \<Rightarrow> (Inl e, w')
              | (Inr result, w') \<Rightarrow>
                  (case result ''generic_channel_name'' of
                     None \<Rightarrow> (Inl (Implicit KeyError), w')
                   | Some h \<Rightarrow>
                       (case hist_values h (''generic_name'', ''generic_template_name'') of
                          Inl e \<Rightarrow> (Inl e, w')
                        | Inr (yields, variance) \<Rightarrow> (Inr (yields, np_sqrt variance), w')))))"

section \<open>The example cells\<close>

definition example_samples :: "(string \<times> sample) list" where
  "example_samples =
     [(''signal'',
       \<lparr>treename = ''signal'', files = [''../cabinetry/ntuples/prediction.root'']\<rparr>),
      (''background'',
       \<lparr>treename = ''background'', files = [''../cabinetry/ntuples/prediction.root'']\<rparr>)]"

definition example_template_info :: "(string \<times> template list) list" where
  "example_template_info =
     [(''signal'',
       [\<lparr>t_name = ''nominal'', weight = Some ''weight'',
         selection_filter = Some ''lep_charge == 1''\<rparr>]),
      (''background'',
       [\<lparr>t_name = ''nominal'', weight = Some ''weight'',
         selection_filter = Some ''lep_charge == 1''\<rparr>,
        \<lparr>t_name = ''WeightBasedModeling'', weight = Some ''weight_up'',
         selection_filter = Some ''lep_charge == 1''\<rparr>])]"

definition example_channel_info :: "channel list" where
  "example_channel_info =
     [\<lparr>ch_name = ''Signal_region'', variable = ''jet_pt'',
       observable_label = ''jet $p_T$ [GeV]'', binning = [200, 300, 400, 500, 600]\<rparr>]"

text \<open>The cell that runs coffea on the example.\<close>

definition example_run ::
  "'row library \<Rightarrow> 'row world
     \<Rightarrow> (error + accumulator) \<times> 'row world" where
  "example_run lib w =
     (case MyProcessor (Some example_channel_info) (Some example_template_info) of
        Inl e \<Rightarrow> (Inl e, w)
      | Inr p \<Rightarrow>
          run_uproot_job lib w
            \<lparr>fileset = example_samples, job_treename = None, processor_instance = p,
             executor = iterative_executor,
             executor_args = [(''schema'', ''BaseSchema'')]\<rparr>)"

text \<open>
  The cell that reads the histograms: three nested loops that print. A lookup that
  raises ends the cell, with what has been printed so far.
\<close>

definition print :: "line \<Rightarrow> 'row world \<Rightarrow> 'row world" where
  "print l w = w\<lparr>stdout := stdout w @ [l]\<rparr>"

fun read_templates ::
  "accumulator \<Rightarrow> channel \<Rightarrow> string \<Rightarrow> 'row world \<Rightarrow> template list
     \<Rightarrow> (error + unit) \<times> 'row world" where
  "read_templates result ch ds w [] = (Inr (), w)"
| "read_templates result ch ds w (tem # tems) =
     (let w1 = print (Template (t_name tem)) w in
      case result (ch_name ch) of
        None \<Rightarrow> (Inl (Implicit KeyError), w1)
      | Some h \<Rightarrow>
          (case hist_values h (ds, t_name tem) of
             Inl e \<Rightarrow> (Inl e, w1)
           | Inr (yields, variance) \<Rightarrow>
               read_templates result ch ds
                 (print (Stdev (np_sqrt variance)) (print (Yields yields) w1)) tems))"

fun read_datasets ::
  "accumulator \<Rightarrow> (string \<times> template list) list \<Rightarrow> channel \<Rightarrow> 'row world \<Rightarrow> string list
     \<Rightarrow> (error + unit) \<times> 'row world" where
  "read_datasets result ti ch w [] = (Inr (), w)"
| "read_datasets result ti ch w (ds # dss) =
     (let w1 = print (Dataset ds) w in
      case map_of ti ds of
        None \<Rightarrow> (Inl (Implicit KeyError), w1)
      | Some tems \<Rightarrow>
          (case read_templates result ch ds w1 tems of
             (Inl e, w2) \<Rightarrow> (Inl e, w2)
           | (Inr u, w2) \<Rightarrow> read_datasets result ti ch w2 dss))"

fun read_channels ::
  "accumulator \<Rightarrow> (string \<times> template list) list \<Rightarrow> 'row world \<Rightarrow> channel list
     \<Rightarrow> (error + unit) \<times> 'row world" where
  "read_channels result ti w [] = (Inr (), w)"
| "read_channels result ti w (ch # chs) =
     (case read_datasets result ti ch (print (Channel (ch_name ch)) w) (map fst ti) of
        (Inl e, w1) \<Rightarrow> (Inl e, w1)
      | (Inr u, w1) \<Rightarrow> read_channels result ti w1 chs)"

definition example_read :: "accumulator \<Rightarrow> 'row world \<Rightarrow> (error + unit) \<times> 'row world" where
  "example_read result w = read_channels result example_template_info w example_channel_info"

section \<open>Names for what build_single_histogram builds\<close>

text \<open>
  The channel, the template and the job that \<^verbatim>\<open>build_single_histogram\<close> puts together
  when the constructor accepts the channel, and what it makes of the job's outcome;
  \<open>build_single_histogram_eq\<close> below shows that the function is then their composition.
\<close>

definition single_channel :: "string \<Rightarrow> real list \<Rightarrow> channel" where
  "single_channel var bins =
     \<lparr>ch_name = ''generic_channel_name'', variable = var,
      observable_label = ''generic_label'', binning = bins\<rparr>"

definition single_template :: "string option \<Rightarrow> string option \<Rightarrow> template" where
  "single_template wgt sel =
     \<lparr>t_name = ''generic_template_name'', weight = wgt, selection_filter = sel\<rparr>"

definition single_job ::
  "path list \<Rightarrow> string \<Rightarrow> string \<Rightarrow> real list \<Rightarrow> string option \<Rightarrow> string option \<Rightarrow> 'row job" where
  "single_job ntuple_paths pos_in_file var bins wgt sel =
     \<lparr>fileset = [(''generic_name'', \<lparr>treename = pos_in_file, files = map str ntuple_paths\<rparr>)],
      job_treename = None,
      processor_instance =
        \<lparr>accumulator = [''generic_channel_name'' \<mapsto> empty_hist (single_channel var bins)],
         channel_info = [single_channel var bins],
         template_info = [(''generic_name'', [single_template wgt sel])]\<rparr>,
      executor = iterative_executor,
      executor_args = [(''schema'', ''BaseSchema'')]\<rparr>"

definition single_result ::
  "(error + accumulator) \<times> 'row world \<Rightarrow> (error + (real list \<times> real list)) \<times> 'row world" where
  "single_result rw =
     (case rw of
        (Inl e, w') \<Rightarrow> (Inl e, w')
      | (Inr result, w') \<Rightarrow>
          (case result ''generic_channel_name'' of
             None \<Rightarrow> (Inl (Implicit KeyError), w')
           | Some h \<Rightarrow>
               (case hist_values h (''generic_name'', ''generic_template_name'') of
                  Inl e \<Rightarrow> (Inl e, w')
                | Inr (yields, variance) \<Rightarrow> (Inr (yields, np_sqrt variance), w'))))"


text \<open>The channels whose histogram coffea accepts.\<close>

definition axis_accepted :: "channel \<Rightarrow> bool" where
  "axis_accepted ch = (variable ch \<noteq> ''weight'' \<and> sorted (binning ch) \<and> binning ch \<noteq> [])"

section \<open>What a fill is expected to hold\<close>

text \<open>
  Written from the description of \<^verbatim>\<open>process\<close>, not from its code: the events of a chunk
  that pass the selection filter of a template, a column of values over given rows, and
  the fill that one channel and one template call for. That fill carries the dataset of
  the chunk, the name of the template, the observable of the channel over the selected
  events, and as weights the template's weight expression over the selected events, or
  a weight of one per observable when the template has no weight.
\<close>

definition selected ::
  "'row library \<Rightarrow> 'row events \<Rightarrow> template \<Rightarrow> 'row list" where
  "selected lib events t =
     (case selection_filter t of
        None \<Rightarrow> []
      | Some s \<Rightarrow>
          (case expression lib s (rows events) of
             None \<Rightarrow> []
           | Some a \<Rightarrow> (case indexing lib (rows events) a of None \<Rightarrow> [] | Some chosen \<Rightarrow> chosen)))"

definition column_values ::
  "'row library \<Rightarrow> string \<Rightarrow> 'row list \<Rightarrow> real list" where
  "column_values lib s rs = (case expression lib s rs of None \<Rightarrow> [] | Some a \<Rightarrow> as_num a)"

definition expected_fill ::
  "'row library \<Rightarrow> 'row events \<Rightarrow> channel \<Rightarrow> template \<Rightarrow> fill_call" where
  "expected_fill lib events ch t =
     \<lparr>fill_dataset = metadata_dataset events,
      fill_template = t_name t,
      fill_weight =
        (case weight t of
           None \<Rightarrow> replicate (length (column_values lib (variable ch) (selected lib events t))) 1
         | Some w \<Rightarrow> column_values lib w (selected lib events t)),
      fill_values = column_values lib (variable ch) (selected lib events t)\<rparr>"

text \<open>The fills expected in the histogram named \<open>n\<close> after one chunk.\<close>

definition expected_fills ::
  "'row library \<Rightarrow> 'row events \<Rightarrow> channel list \<Rightarrow> template list
     \<Rightarrow> string \<Rightarrow> fill_call list" where
  "expected_fills lib events chs ts n =
     concat (map (\<lambda>ch. map (expected_fill lib events ch) ts)
                 (filter (\<lambda>ch. ch_name ch = n) chs))"

text \<open>Appending fills to the histogram of one name, for the statements about the loops.\<close>

definition append_fills :: "accumulator \<Rightarrow> string \<Rightarrow> fill_call list \<Rightarrow> accumulator" where
  "append_fills out n fs =
     (\<lambda>k. if k = n then map_option (\<lambda>h. h\<lparr>fills := fills h @ fs\<rparr>) (out k) else out k)"

text \<open>
  The fills expected of a call of \<^verbatim>\<open>build_single_histogram\<close>: one per chunk, for its one
  channel and its one template.
\<close>

definition single_fills ::
  "'row library \<Rightarrow> 'row events list \<Rightarrow> string \<Rightarrow> real list
     \<Rightarrow> string option \<Rightarrow> string option \<Rightarrow> fill_call list" where
  "single_fills lib items var bins wgt sel =
     map (\<lambda>c. expected_fill lib c (single_channel var bins) (single_template wgt sel)) items"

text \<open>
  The number of histograms a job builds: one for every channel and every template of
  every sample.
\<close>

definition histograms_of_job :: "'row job \<Rightarrow> nat" where
  "histograms_of_job j =
     length (channel_info (processor_instance j)) *
     sum_list (map (\<lambda>(ds, ts). length ts) (template_info (processor_instance j)))"

section \<open>Concrete inputs\<close>

text \<open>
  A small world for the concrete instances below. A row is a pair of an observable \<open>x\<close>
  and a weight \<open>w\<close>; the expressions known are the two columns and one filter. An index
  that is a boolean mask as long as the rows selects the rows marked true, an index of
  integers selects by position, counting from the end when negative. The file
  \<^verbatim>\<open>f.root\<close> holds the tree \<^verbatim>\<open>tree\<close> in two chunks.
\<close>

definition demo_expression :: "string \<Rightarrow> (real \<times> real) list \<Rightarrow> array option" where
  "demo_expression s rs =
     (if s = ''x'' then Some (FloatArray (map fst rs))
      else if s = ''w'' then Some (FloatArray (map snd rs))
      else if s = ''x >= 1'' then Some (BoolArray (map (\<lambda>r. 1 \<le> fst r) rs))
      else None)"

fun demo_indexing :: "'row list \<Rightarrow> array \<Rightarrow> 'row list option" where
  "demo_indexing rs (BoolArray m) =
     (if length m = length rs then Some (map fst (filter snd (zip rs m))) else None)"
| "demo_indexing rs (IntArray ns) =
     (if list_all (\<lambda>i. - int (length rs) \<le> i \<and> i < int (length rs)) ns
      then Some (map (\<lambda>i. rs ! nat (if i < 0 then i + int (length rs) else i)) ns)
      else None)"
| "demo_indexing rs (FloatArray xs) = None"

definition demo_lib :: "(real \<times> real) library" where
  "demo_lib = \<lparr>expression = demo_expression, indexing = demo_indexing\<rparr>"

definition demo_world :: "(real \<times> real) world" where
  "demo_world =
     \<lparr>file_store =
        (\<lambda>f. if f = ''f.root''
              then Some (\<lambda>t. if t = ''tree''
                              then Some [[(1, 3), (2, 2)], [(1, 4), (1 / 2, 1)]]
                              else None)
              else None),
      stdout = [], jobs = []\<rparr>"

text \<open>A processor without channels, whose only template has neither weight nor filter.\<close>

definition no_channel_processor :: processor where
  "no_channel_processor =
     \<lparr>accumulator = Map.empty, channel_info = [],
      template_info =
        [(''d'', [\<lparr>t_name = ''t'', weight = None, selection_filter = None\<rparr>])]\<rparr>"

definition demo_events :: "(real \<times> real) events" where
  "demo_events = \<lparr>metadata_dataset = ''d'', rows = [(1, 3), (2, 2), (1 / 2, 1)]\<rparr>"

definition demo_channel :: channel where
  "demo_channel =
     \<lparr>ch_name = ''c'', variable = ''x'', observable_label = ''x'', binning = [0, 3 / 2, 3]\<rparr>"

text \<open>A second channel, which bins the column \<open>w\<close>.\<close>

definition demo_channel2 :: channel where
  "demo_channel2 =
     \<lparr>ch_name = ''c2'', variable = ''w'', observable_label = ''w'', binning = [0, 5 / 2, 5]\<rparr>"


definition demo_template :: "string \<Rightarrow> string option \<Rightarrow> template" where
  "demo_template n wgt = \<lparr>t_name = n, weight = wgt, selection_filter = Some ''x >= 1''\<rparr>"

definition demo_templates :: "template list" where
  "demo_templates = [demo_template ''weighted'' (Some ''w''), demo_template ''unweighted'' None]"

text \<open>Two templates of one name, the first without weight.\<close>

definition same_name_templates :: "template list" where
  "same_name_templates = [demo_template ''same'' None, demo_template ''same'' (Some ''w'')]"

definition demo_processor :: processor where
  "demo_processor =
     \<lparr>accumulator = [''c'' \<mapsto> empty_hist demo_channel, ''c2'' \<mapsto> empty_hist demo_channel2],
      channel_info = [demo_channel, demo_channel2],
      template_info = [(''d'', demo_templates)]\<rparr>"

definition same_name_processor :: processor where
  "same_name_processor =
     \<lparr>accumulator = [''c'' \<mapsto> empty_hist demo_channel], channel_info = [demo_channel],
      template_info = [(''d'', same_name_templates)]\<rparr>"

text \<open>The histogram of the channel after both templates of one name have filled it.\<close>

definition same_name_hist :: hist where
  "same_name_hist =
     (empty_hist demo_channel)
       \<lparr>fills :=
          [\<lparr>fill_dataset = ''d'', fill_template = ''same'', fill_weight = [1, 1],
            fill_values = [1, 2]\<rparr>,
           \<lparr>fill_dataset = ''d'', fill_template = ''same'', fill_weight = [3, 2],
            fill_values = [1, 2]\<rparr>]\<rparr>"

section \<open>The constructor\<close>

lemma new_hist_Inr: "new_hist ch = Inr h \<longleftrightarrow> axis_accepted ch \<and> h = empty_hist ch"
  by (auto simp: new_hist_def axis_accepted_def)

lemma new_hist_Inl:
  "new_hist ch = Inl e \<Longrightarrow> e = Implicit ValueError \<or> e = Implicit IndexError"
  by (auto simp: new_hist_def split: if_splits)

lemma init_accumulator_Inr:
  "init_accumulator acc chs = Inr acc' \<longleftrightarrow>
     list_all axis_accepted chs \<and>
     acc' = foldl (\<lambda>a c. a(ch_name c \<mapsto> empty_hist c)) acc chs"
proof (induction chs arbitrary: acc)
  case Nil
  show ?case by auto
next
  case (Cons ch chs)
  show ?case
  proof (cases "new_hist ch")
    case (Inl e)
    then have "\<not> axis_accepted ch"
      using new_hist_Inr [of ch] by (cases "axis_accepted ch") auto
    then show ?thesis using Inl by simp
  next
    case (Inr h)
    then have "axis_accepted ch" "h = empty_hist ch"
      using new_hist_Inr [of ch h] by simp_all
    then show ?thesis using Inr Cons.IH by simp
  qed
qed

lemma init_accumulator_Inl:
  "init_accumulator acc chs = Inl e \<Longrightarrow> e = Implicit ValueError \<or> e = Implicit IndexError"
  by (induction chs arbitrary: acc) (auto split: sum.splits dest: new_hist_Inl)

lemma MyProcessor_Inr:
  "MyProcessor (Some chs) (Some tmpl) = Inr p \<longleftrightarrow>
     list_all axis_accepted chs \<and>
     p = \<lparr>accumulator = foldl (\<lambda>a c. a(ch_name c \<mapsto> empty_hist c)) Map.empty chs,
          channel_info = chs, template_info = tmpl\<rparr>"
proof (cases "init_accumulator Map.empty chs")
  case (Inl e)
  then have "\<not> list_all axis_accepted chs"
    using init_accumulator_Inr [of Map.empty chs] by (cases "list_all axis_accepted chs") auto
  then show ?thesis using Inl by (simp add: MyProcessor_def)
next
  case (Inr acc)
  then show ?thesis
    using init_accumulator_Inr [of Map.empty chs acc] by (auto simp: MyProcessor_def)
qed

lemma MyProcessor_accepted:
  "list_all axis_accepted chs \<Longrightarrow>
     MyProcessor (Some chs) (Some tmpl) =
       Inr \<lparr>accumulator = foldl (\<lambda>a c. a(ch_name c \<mapsto> empty_hist c)) Map.empty chs,
            channel_info = chs, template_info = tmpl\<rparr>"
  using MyProcessor_Inr by blast

lemma MyProcessor_Inl:
  "MyProcessor (Some chs) (Some tmpl) = Inl e \<Longrightarrow>
     (e = Implicit ValueError \<or> e = Implicit IndexError) \<and> \<not> list_all axis_accepted chs"
proof -
  assume a: "MyProcessor (Some chs) (Some tmpl) = Inl e"
  then have "init_accumulator Map.empty chs = Inl e"
    by (auto simp: MyProcessor_def split: sum.splits)
  moreover have "\<not> list_all axis_accepted chs"
    using a MyProcessor_accepted [of chs tmpl] by auto
  ultimately show ?thesis using init_accumulator_Inl by blast
qed

lemma MyProcessor_rejected:
  "\<not> list_all axis_accepted chs \<Longrightarrow> \<exists>e. MyProcessor (Some chs) (Some tmpl) = Inl e"
  using MyProcessor_Inr [of chs tmpl] by (cases "MyProcessor (Some chs) (Some tmpl)") auto


section \<open>The only raise statement\<close>















lemma single_accepted:
  "list_all axis_accepted [single_channel var bins] \<longleftrightarrow> var \<noteq> ''weight'' \<and> sorted bins \<and> bins \<noteq> []"
  by (simp add: axis_accepted_def single_channel_def)

lemma MyProcessor_single:
  "var \<noteq> ''weight'' \<and> sorted bins \<and> bins \<noteq> [] \<Longrightarrow>
   MyProcessor (Some [single_channel var bins]) (Some [(''generic_name'', [single_template wgt sel])])
     = Inr (processor_instance (single_job ps pos var bins wgt sel))"
  using MyProcessor_accepted [of "[single_channel var bins]"] single_accepted [of var bins]
  by (simp add: single_job_def single_channel_def)

lemma build_single_histogram_eq:
  "var \<noteq> ''weight'' \<and> sorted bins \<and> bins \<noteq> [] \<Longrightarrow>
   build_single_histogram lib w ps pos var bins wgt sel =
     single_result (run_uproot_job lib w (single_job ps pos var bins wgt sel))"
  using MyProcessor_single [of var bins wgt sel ps pos]
  by (simp add: build_single_histogram_def single_result_def single_job_def single_channel_def
      single_template_def Let_def)

lemma build_single_histogram_rejected:
  "\<not> (var \<noteq> ''weight'' \<and> sorted bins \<and> bins \<noteq> []) \<Longrightarrow>
   \<exists>e. MyProcessor (Some [single_channel var bins])
          (Some [(''generic_name'', [single_template wgt sel])]) = Inl e
      \<and> (e = Implicit ValueError \<or> e = Implicit IndexError)
      \<and> build_single_histogram lib w ps pos var bins wgt sel = (Inl e, w)"
proof -
  assume "\<not> (var \<noteq> ''weight'' \<and> sorted bins \<and> bins \<noteq> [])"
  then have "\<not> list_all axis_accepted [single_channel var bins]"
    using single_accepted by blast
  then obtain e where e: "MyProcessor (Some [single_channel var bins])
          (Some [(''generic_name'', [single_template wgt sel])]) = Inl e"
    using MyProcessor_rejected by blast
  then have "build_single_histogram lib w ps pos var bins wgt sel = (Inl e, w)"
    by (simp add: build_single_histogram_def single_channel_def single_template_def Let_def)
  then show ?thesis using e MyProcessor_Inl [OF e] by blast
qed



lemma example_accepted: "list_all axis_accepted example_channel_info"
  by (simp add: example_channel_info_def axis_accepted_def)

lemma example_run_eq:
  "example_run lib w =
     run_uproot_job lib w
       \<lparr>fileset = example_samples, job_treename = None,
        processor_instance =
          \<lparr>accumulator =
             foldl (\<lambda>a c. a(ch_name c \<mapsto> empty_hist c)) Map.empty example_channel_info,
           channel_info = example_channel_info, template_info = example_template_info\<rparr>,
        executor = iterative_executor, executor_args = [(''schema'', ''BaseSchema'')]\<rparr>"
  by (simp add: example_run_def MyProcessor_accepted [OF example_accepted])











section \<open>What build_single_histogram hands to the backend\<close>

lemma snd_run_uproot_job: "snd (run_uproot_job lib w j) = w\<lparr>jobs := jobs w @ [j]\<rparr>"
  by (simp add: run_uproot_job_def Let_def split: sum.splits)

lemma snd_single_result: "snd (single_result rw) = snd rw"
  by (simp add: single_result_def split: sum.splits option.splits prod.splits)

lemma snd_build_single_histogram:
  "var \<noteq> ''weight'' \<and> sorted bins \<and> bins \<noteq> [] \<Longrightarrow>
   snd (build_single_histogram lib w ps pos var bins wgt sel) =
     w\<lparr>jobs := jobs w @ [single_job ps pos var bins wgt sel]\<rparr>"
  by (simp add: build_single_histogram_eq snd_single_result snd_run_uproot_job)

lemma demo_weight_axis:
  "build_single_histogram demo_lib demo_world [Path ''f.root''] ''tree'' ''weight'' [0, 3 / 2, 3]
     None (Some ''x >= 1'') = (Inl (Implicit ValueError), demo_world)"
  by (simp add: build_single_histogram_def Let_def MyProcessor_def new_hist_def)

text \<open>
  Claim C4 as stated does not hold of every call: with the variable \<^verbatim>\<open>weight\<close> the
  constructor of \<^verbatim>\<open>MyProcessor\<close> raises inside \<^verbatim>\<open>build_single_histogram\<close>, and nothing
  is handed to the backend.
\<close>

theorem weight_axis_counterexample:
  "build_single_histogram demo_lib demo_world [Path ''f.root''] ''tree'' ''weight'' [0, 3 / 2, 3]
     None (Some ''x >= 1'') = (Inl (Implicit ValueError), demo_world)
   \<and> jobs demo_world = []"
  by (simp add: demo_weight_axis) (simp add: demo_world_def)

text \<open>
  Claim C4, amended. Whenever the constructor accepts the channel (the variable is not
  \<^verbatim>\<open>weight\<close>, the bins are sorted and not empty), \<^verbatim>\<open>build_single_histogram\<close> puts its
  arguments into the dictionaries as they are and hands them to \<^verbatim>\<open>run_uproot_job\<close>: the
  samples map \<^verbatim>\<open>generic_name\<close> to the tree \<^verbatim>\<open>pos_in_file\<close> and the string forms of
  \<^verbatim>\<open>ntuple_paths\<close>, the channel carries the variable and the bins, the template the
  weight and the selection filter, and the job holds these dictionaries with the
  \<^verbatim>\<open>MyProcessor\<close> built from them; what the function returns is read off what that job
  returns. Otherwise the exception of the constructor ends the call and nothing is
  handed over.
\<close>

theorem build_single_histogram_hands_over:
  "(var \<noteq> ''weight'' \<and> sorted bins \<and> bins \<noteq> [] \<longrightarrow>
     (\<exists>p. MyProcessor
          (Some [\<lparr>ch_name = ''generic_channel_name'', variable = var,
                  observable_label = ''generic_label'', binning = bins\<rparr>])
          (Some [(''generic_name'',
                  [\<lparr>t_name = ''generic_template_name'', weight = wgt,
                    selection_filter = sel\<rparr>])]) = Inr p
       \<and> channel_info p =
           [\<lparr>ch_name = ''generic_channel_name'', variable = var,
             observable_label = ''generic_label'', binning = bins\<rparr>]
       \<and> template_info p =
           [(''generic_name'',
             [\<lparr>t_name = ''generic_template_name'', weight = wgt, selection_filter = sel\<rparr>])]
       \<and> jobs (snd (build_single_histogram lib w ntuple_paths pos_in_file var bins wgt sel)) =
           jobs w @
           [\<lparr>fileset =
               [(''generic_name'',
                 \<lparr>treename = pos_in_file, files = map str ntuple_paths\<rparr>)],
             job_treename = None, processor_instance = p, executor = iterative_executor,
             executor_args = [(''schema'', ''BaseSchema'')]\<rparr>]
       \<and> build_single_histogram lib w ntuple_paths pos_in_file var bins wgt sel =
           single_result (run_uproot_job lib w
             \<lparr>fileset =
               [(''generic_name'',
                 \<lparr>treename = pos_in_file, files = map str ntuple_paths\<rparr>)],
              job_treename = None, processor_instance = p, executor = iterative_executor,
              executor_args = [(''schema'', ''BaseSchema'')]\<rparr>)))
   \<and> (\<not> (var \<noteq> ''weight'' \<and> sorted bins \<and> bins \<noteq> []) \<longrightarrow>
     (\<exists>e. MyProcessor
          (Some [\<lparr>ch_name = ''generic_channel_name'', variable = var,
                  observable_label = ''generic_label'', binning = bins\<rparr>])
          (Some [(''generic_name'',
                  [\<lparr>t_name = ''generic_template_name'', weight = wgt,
                    selection_filter = sel\<rparr>])]) = Inl e
       \<and> build_single_histogram lib w ntuple_paths pos_in_file var bins wgt sel = (Inl e, w)))"
proof (intro conjI impI)
  assume ok: "var \<noteq> ''weight'' \<and> sorted bins \<and> bins \<noteq> []"
  let ?j = "single_job ntuple_paths pos_in_file var bins wgt sel :: 'a job"
  let ?p = "processor_instance ?j"
  have j: "?j = \<lparr>fileset =
               [(''generic_name'',
                 \<lparr>treename = pos_in_file, files = map str ntuple_paths\<rparr>)],
             job_treename = None, processor_instance = ?p, executor = iterative_executor,
             executor_args = [(''schema'', ''BaseSchema'')]\<rparr>"
    by (simp add: single_job_def)
  have "MyProcessor
          (Some [\<lparr>ch_name = ''generic_channel_name'', variable = var,
                  observable_label = ''generic_label'', binning = bins\<rparr>])
          (Some [(''generic_name'',
                  [\<lparr>t_name = ''generic_template_name'', weight = wgt,
                    selection_filter = sel\<rparr>])]) = Inr ?p"
    using MyProcessor_single [OF ok, of wgt sel ntuple_paths pos_in_file]
    by (simp add: single_channel_def single_template_def)
  moreover have "channel_info ?p =
           [\<lparr>ch_name = ''generic_channel_name'', variable = var,
             observable_label = ''generic_label'', binning = bins\<rparr>]"
    by (simp add: single_job_def single_channel_def)
  moreover have "template_info ?p =
           [(''generic_name'',
             [\<lparr>t_name = ''generic_template_name'', weight = wgt, selection_filter = sel\<rparr>])]"
    by (simp add: single_job_def single_template_def)
  moreover have "jobs (snd (build_single_histogram lib w ntuple_paths pos_in_file var bins wgt sel)) =
      jobs w @ [?j]"
    by (simp add: snd_build_single_histogram [OF ok])
  moreover have "build_single_histogram lib w ntuple_paths pos_in_file var bins wgt sel =
      single_result (run_uproot_job lib w ?j)"
    by (rule build_single_histogram_eq [OF ok])
  ultimately show "\<exists>p. MyProcessor
          (Some [\<lparr>ch_name = ''generic_channel_name'', variable = var,
                  observable_label = ''generic_label'', binning = bins\<rparr>])
          (Some [(''generic_name'',
                  [\<lparr>t_name = ''generic_template_name'', weight = wgt,
                    selection_filter = sel\<rparr>])]) = Inr p
       \<and> channel_info p =
           [\<lparr>ch_name = ''generic_channel_name'', variable = var,
             observable_label = ''generic_label'', binning = bins\<rparr>]
       \<and> template_info p =
           [(''generic_name'',
             [\<lparr>t_name = ''generic_template_name'', weight = wgt, selection_filter = sel\<rparr>])]
       \<and> jobs (snd (build_single_histogram lib w ntuple_paths pos_in_file var bins wgt sel)) =
           jobs w @
           [\<lparr>fileset =
               [(''generic_name'',
                 \<lparr>treename = pos_in_file, files = map str ntuple_paths\<rparr>)],
             job_treename = None, processor_instance = p, executor = iterative_executor,
             executor_args = [(''schema'', ''BaseSchema'')]\<rparr>]
       \<and> build_single_histogram lib w ntuple_paths pos_in_file var bins wgt sel =
           single_result (run_uproot_job lib w
             \<lparr>fileset =
               [(''generic_name'',
                 \<lparr>treename = pos_in_file, files = map str ntuple_paths\<rparr>)],
              job_treename = None, processor_instance = p, executor = iterative_executor,
              executor_args = [(''schema'', ''BaseSchema'')]\<rparr>)"
    apply (intro exI [of _ ?p] conjI)
        apply assumption
       apply assumption
      apply assumption
     apply (subst j [symmetric], assumption)
    apply (subst j [symmetric], assumption)
    done
next
  assume "\<not> (var \<noteq> ''weight'' \<and> sorted bins \<and> bins \<noteq> [])"
  then show "\<exists>e. MyProcessor
          (Some [\<lparr>ch_name = ''generic_channel_name'', variable = var,
                  observable_label = ''generic_label'', binning = bins\<rparr>])
          (Some [(''generic_name'',
                  [\<lparr>t_name = ''generic_template_name'', weight = wgt,
                    selection_filter = sel\<rparr>])]) = Inl e
       \<and> build_single_histogram lib w ntuple_paths pos_in_file var bins wgt sel = (Inl e, w)"
    using build_single_histogram_rejected [of var bins wgt sel lib w ntuple_paths pos_in_file]
    by (auto simp: single_channel_def single_template_def)
qed

theorem build_single_histogram_hands_over_witness:
  "map fileset (jobs (snd (build_single_histogram demo_lib demo_world
       [Path ''f.root'', Path ''g.root''] ''tree'' ''x'' [0, 3 / 2, 3] (Some ''w'') (Some ''x >= 1'')))) =
     [[(''generic_name'', \<lparr>treename = ''tree'', files = [''f.root'', ''g.root'']\<rparr>)]]
   \<and> (\<exists>e. build_single_histogram demo_lib demo_world [Path ''f.root''] ''tree'' ''x'' [3, 0]
            (Some ''w'') (Some ''x >= 1'') = (Inl e, demo_world))"
proof -
  have ok: "''x'' \<noteq> ''weight'' \<and> sorted [0, 3 / 2, 3 :: real] \<and> [0, 3 / 2, 3 :: real] \<noteq> []"
    by simp
  have bad: "\<not> (''x'' \<noteq> ''weight'' \<and> sorted [3, 0 :: real] \<and> [3, 0 :: real] \<noteq> [])"
    by simp
  have "map fileset (jobs (snd (build_single_histogram demo_lib demo_world
       [Path ''f.root'', Path ''g.root''] ''tree'' ''x'' [0, 3 / 2, 3] (Some ''w'') (Some ''x >= 1'')))) =
     [[(''generic_name'', \<lparr>treename = ''tree'', files = [''f.root'', ''g.root'']\<rparr>)]]"
    using build_single_histogram_hands_over [of "''x''" "[0, 3 / 2, 3]" "Some ''w''" "Some ''x >= 1''"
        demo_lib demo_world "[Path ''f.root'', Path ''g.root'']" "''tree''", THEN conjunct1] ok
    by (auto simp: demo_world_def)
  moreover have "\<exists>e. build_single_histogram demo_lib demo_world [Path ''f.root''] ''tree'' ''x'' [3, 0]
            (Some ''w'') (Some ''x >= 1'') = (Inl e, demo_world)"
    using build_single_histogram_hands_over [of "''x''" "[3, 0]" "Some ''w''" "Some ''x >= 1''"
        demo_lib demo_world "[Path ''f.root'']" "''tree''", THEN conjunct2] bad
    by blast
  ultimately show ?thesis by blast
qed

section \<open>One histogram per call\<close>

lemma histograms_of_single_job: "histograms_of_job (single_job ps pos var bins wgt sel) = 1"
  by (simp add: histograms_of_job_def single_job_def)

lemma snd_example_run:
  "\<exists>j. snd (example_run lib w) = w\<lparr>jobs := jobs w @ [j]\<rparr>
     \<and> executor j = iterative_executor
     \<and> channel_info (processor_instance j) = example_channel_info
     \<and> template_info (processor_instance j) = example_template_info"
  unfolding example_run_eq snd_run_uproot_job
  by (rule exI [of _ "\<lparr>fileset = example_samples, job_treename = None,
        processor_instance =
          \<lparr>accumulator =
             foldl (\<lambda>a c. a(ch_name c \<mapsto> empty_hist c)) Map.empty example_channel_info,
           channel_info = example_channel_info, template_info = example_template_info\<rparr>,
        executor = iterative_executor, executor_args = [(''schema'', ''BaseSchema'')]\<rparr>"]) simp

lemma histograms_of_example:
  "channel_info (processor_instance j) = example_channel_info \<Longrightarrow>
   template_info (processor_instance j) = example_template_info \<Longrightarrow> histograms_of_job j = 3"
  by (simp add: histograms_of_job_def example_channel_info_def example_template_info_def)

lemma demo_unsorted_bins:
  "build_single_histogram demo_lib demo_world [Path ''f.root''] ''tree'' ''x'' [3, 0]
     None (Some ''x >= 1'') = (Inl (Implicit ValueError), demo_world)"
  by (simp add: build_single_histogram_def Let_def MyProcessor_def new_hist_def)

text \<open>
  Claim C1 as stated does not hold of the whole notebook: the job of the example cell
  builds three histograms (one channel, one template of the sample \<^verbatim>\<open>signal\<close> and two
  of the sample \<^verbatim>\<open>background\<close>), not one; and a call of \<^verbatim>\<open>build_single_histogram\<close> with
  bins that are not sorted hands no job to the backend, the constructor raising first.
\<close>

theorem example_job_counterexample:
  "map histograms_of_job (jobs (snd (example_run demo_lib demo_world))) = [3]
   \<and> jobs (snd (build_single_histogram demo_lib demo_world [Path ''f.root''] ''tree'' ''x'' [3, 0]
         None (Some ''x >= 1''))) = []"
proof -
  obtain j where j: "snd (example_run demo_lib demo_world) =
         demo_world\<lparr>jobs := jobs demo_world @ [j]\<rparr>"
     and "channel_info (processor_instance j) = example_channel_info"
       "template_info (processor_instance j) = example_template_info"
    using snd_example_run [of demo_lib demo_world] by blast
  then have "map histograms_of_job (jobs (snd (example_run demo_lib demo_world))) = [3]"
    by (simp add: histograms_of_example demo_world_def)
  then show ?thesis
    by (simp add: demo_unsorted_bins) (simp add: demo_world_def)
qed

text \<open>
  Claim C1, amended. A call of \<^verbatim>\<open>build_single_histogram\<close> whose channel the constructor
  accepts (the variable is not \<^verbatim>\<open>weight\<close>, the bins are sorted and not empty) hands
  exactly one job to the backend, and that job builds exactly one histogram: its
  \<^verbatim>\<open>template_info\<close> has the single key \<^verbatim>\<open>generic_name\<close> with a list of one template, and
  its \<^verbatim>\<open>channel_info\<close> has one channel. Any other call hands over no job. The function
  groups nothing. The example cell hands over one job, which builds three histograms.
\<close>

theorem build_single_histogram_one_histogram:
  "(var \<noteq> ''weight'' \<and> sorted bins \<and> bins \<noteq> [] \<longrightarrow>
     (\<exists>j t ch. jobs (snd (build_single_histogram lib w ntuple_paths pos_in_file var bins wgt sel)) =
        jobs w @ [j]
      \<and> template_info (processor_instance j) = [(''generic_name'', [t])]
      \<and> channel_info (processor_instance j) = [ch]
      \<and> histograms_of_job j = 1))
   \<and> (\<not> (var \<noteq> ''weight'' \<and> sorted bins \<and> bins \<noteq> []) \<longrightarrow>
        jobs (snd (build_single_histogram lib w ntuple_paths pos_in_file var bins wgt sel)) = jobs w)
   \<and> (\<exists>j. jobs (snd (example_run lib w)) = jobs w @ [j] \<and> histograms_of_job j = 3)"
proof -
  have ex: "\<exists>j. jobs (snd (example_run lib w)) = jobs w @ [j] \<and> histograms_of_job j = 3"
    using snd_example_run [of lib w] by (auto simp: histograms_of_example)
  have one: "\<exists>j t ch. jobs (snd (build_single_histogram lib w ntuple_paths pos_in_file var bins wgt sel)) =
        jobs w @ [j]
      \<and> template_info (processor_instance j) = [(''generic_name'', [t])]
      \<and> channel_info (processor_instance j) = [ch]
      \<and> histograms_of_job j = 1"
    if ok: "var \<noteq> ''weight'' \<and> sorted bins \<and> bins \<noteq> []"
    by (simp add: snd_build_single_histogram [OF ok] histograms_of_single_job)
       (simp add: single_job_def)
  have none: "jobs (snd (build_single_histogram lib w ntuple_paths pos_in_file var bins wgt sel)) = jobs w"
    if "\<not> (var \<noteq> ''weight'' \<and> sorted bins \<and> bins \<noteq> [])"
    using build_single_histogram_rejected [OF that, of wgt sel lib w ntuple_paths pos_in_file]
    by auto
  show ?thesis using ex one none by blast
qed

theorem build_single_histogram_one_histogram_witness:
  "length (jobs (snd (build_single_histogram demo_lib demo_world [Path ''f.root''] ''tree'' ''x''
      [0, 3 / 2, 3] (Some ''w'') (Some ''x >= 1'')))) = 1
   \<and> length (jobs (snd (build_single_histogram demo_lib demo_world [Path ''f.root''] ''tree''
      ''weight'' [0, 3 / 2, 3] (Some ''w'') (Some ''x >= 1'')))) = 0
   \<and> length (jobs (snd (example_run demo_lib demo_world))) = 1"
proof -
  have ok: "''x'' \<noteq> ''weight'' \<and> sorted [0, 3 / 2, 3 :: real] \<and> [0, 3 / 2, 3 :: real] \<noteq> []"
    by simp
  have bad: "\<not> (''weight'' \<noteq> ''weight'' \<and> sorted [0, 3 / 2, 3 :: real] \<and> [0, 3 / 2, 3 :: real] \<noteq> [])"
    by simp
  have a: "length (jobs (snd (build_single_histogram demo_lib demo_world [Path ''f.root''] ''tree'' ''x''
      [0, 3 / 2, 3] (Some ''w'') (Some ''x >= 1'')))) = 1"
    using build_single_histogram_one_histogram [of "''x''" "[0, 3 / 2, 3]" demo_lib demo_world
        "[Path ''f.root'']" "''tree''" "Some ''w''" "Some ''x >= 1''", THEN conjunct1] ok
    by (auto simp: demo_world_def)
  have b: "length (jobs (snd (build_single_histogram demo_lib demo_world [Path ''f.root''] ''tree''
      ''weight'' [0, 3 / 2, 3] (Some ''w'') (Some ''x >= 1'')))) = 0"
    using build_single_histogram_one_histogram [of "''weight''" "[0, 3 / 2, 3]" demo_lib demo_world
        "[Path ''f.root'']" "''tree''" "Some ''w''" "Some ''x >= 1''", THEN conjunct2, THEN conjunct1] bad
    by (auto simp: demo_world_def)
  have c: "length (jobs (snd (example_run demo_lib demo_world))) = 1"
    using build_single_histogram_one_histogram [of "''x''" "[0, 3 / 2, 3]" demo_lib demo_world
        "[Path ''f.root'']" "''tree''" "Some ''w''" "Some ''x >= 1''", THEN conjunct2, THEN conjunct2]
    by (auto simp: demo_world_def)
  show ?thesis using a b c by blast
qed

section \<open>Files and standard output\<close>

lemma read_templates_frame:
  "\<exists>ls. snd (read_templates result ch ds w tems) = w\<lparr>stdout := stdout w @ ls\<rparr>"
proof (induction tems arbitrary: w)
  case Nil
  show ?case by (simp add: exI [of _ "[]"])
next
  case (Cons tem tems)
  let ?w1 = "print (Template (t_name tem)) w"
  show ?case
  proof (cases "result (ch_name ch)")
    case None
    then show ?thesis
      by (simp add: Let_def print_def exI [of _ "[Template (t_name tem)]"])
  next
    case (Some h)
    show ?thesis
    proof (cases "hist_values h (ds, t_name tem)")
      case (Inl e)
      with Some show ?thesis
        by (simp add: Let_def print_def exI [of _ "[Template (t_name tem)]"])
    next
      case (Inr yv)
      obtain yields variance where yv: "yv = (yields, variance)" by (cases yv)
      let ?w3 = "print (Stdev (np_sqrt variance)) (print (Yields yields) ?w1)"
      obtain ls where ls: "snd (read_templates result ch ds ?w3 tems) = ?w3\<lparr>stdout := stdout ?w3 @ ls\<rparr>"
        using Cons.IH [of ?w3] by blast
      have "snd (read_templates result ch ds w (tem # tems)) =
          w\<lparr>stdout := stdout w @ ([Template (t_name tem), Yields yields, Stdev (np_sqrt variance)] @ ls)\<rparr>"
        using Some Inr yv ls by (simp add: Let_def print_def)
      then show ?thesis by blast
    qed
  qed
qed

lemma read_datasets_frame:
  "\<exists>ls. snd (read_datasets result ti ch w dss) = w\<lparr>stdout := stdout w @ ls\<rparr>"
proof (induction dss arbitrary: w)
  case Nil
  show ?case by (simp add: exI [of _ "[]"])
next
  case (Cons ds dss)
  let ?w1 = "print (Dataset ds) w"
  show ?case
  proof (cases "map_of ti ds")
    case None
    then show ?thesis by (simp add: Let_def print_def exI [of _ "[Dataset ds]"])
  next
    case (Some tems)
    obtain r w2 where rt: "read_templates result ch ds ?w1 tems = (r, w2)"
      by (cases "read_templates result ch ds ?w1 tems")
    obtain ls where ls: "w2 = ?w1\<lparr>stdout := stdout ?w1 @ ls\<rparr>"
      using read_templates_frame [of result ch ds ?w1 tems] rt by auto
    show ?thesis
    proof (cases r)
      case (Inl e)
      have "snd (read_datasets result ti ch w (ds # dss)) = w\<lparr>stdout := stdout w @ (Dataset ds # ls)\<rparr>"
        using Some rt Inl ls by (simp add: Let_def print_def)
      then show ?thesis by blast
    next
      case (Inr u)
      obtain ls' where ls': "snd (read_datasets result ti ch w2 dss) = w2\<lparr>stdout := stdout w2 @ ls'\<rparr>"
        using Cons.IH [of w2] by blast
      have "snd (read_datasets result ti ch w (ds # dss)) =
          w\<lparr>stdout := stdout w @ (Dataset ds # ls @ ls')\<rparr>"
        using Some rt Inr ls ls' by (simp add: Let_def print_def)
      then show ?thesis by blast
    qed
  qed
qed

lemma read_channels_frame:
  "\<exists>ls. snd (read_channels result ti w chs) = w\<lparr>stdout := stdout w @ ls\<rparr>"
proof (induction chs arbitrary: w)
  case Nil
  show ?case by (simp add: exI [of _ "[]"])
next
  case (Cons ch chs)
  let ?w0 = "print (Channel (ch_name ch)) w"
  obtain r w1 where rd: "read_datasets result ti ch ?w0 (map fst ti) = (r, w1)"
    by (cases "read_datasets result ti ch ?w0 (map fst ti)")
  obtain ls where ls: "w1 = ?w0\<lparr>stdout := stdout ?w0 @ ls\<rparr>"
    using read_datasets_frame [of result ti ch ?w0 "map fst ti"] rd by auto
  show ?case
  proof (cases r)
    case (Inl e)
    have "snd (read_channels result ti w (ch # chs)) = w\<lparr>stdout := stdout w @ (Channel (ch_name ch) # ls)\<rparr>"
      using rd Inl ls by (simp add: print_def)
    then show ?thesis by blast
  next
    case (Inr u)
    obtain ls' where ls': "snd (read_channels result ti w1 chs) = w1\<lparr>stdout := stdout w1 @ ls'\<rparr>"
      using Cons.IH [of w1] by blast
    have "snd (read_channels result ti w (ch # chs)) =
        w\<lparr>stdout := stdout w @ (Channel (ch_name ch) # ls @ ls')\<rparr>"
      using rd Inr ls ls' by (simp add: print_def)
    then show ?thesis by blast
  qed
qed

text \<open>
  Claim C6. No operation writes to a file or a data store. \<^verbatim>\<open>build_single_histogram\<close>
  and the run of the example (the backend calling \<^verbatim>\<open>process\<close>) leave the files and the
  standard output as they were, and the reading loop changes nothing of the world but the
  standard output, to which it appends what it prints.
\<close>

theorem nothing_written:
  "file_store (snd (build_single_histogram lib w ntuple_paths pos_in_file var bins wgt sel)) =
     file_store w
   \<and> stdout (snd (build_single_histogram lib w ntuple_paths pos_in_file var bins wgt sel)) = stdout w
   \<and> file_store (snd (example_run lib w)) = file_store w
   \<and> stdout (snd (example_run lib w)) = stdout w
   \<and> (\<exists>ls. snd (example_read result w) = w\<lparr>stdout := stdout w @ ls\<rparr>)"
proof -
  have "\<exists>ls. snd (example_read result w) = w\<lparr>stdout := stdout w @ ls\<rparr>"
    unfolding example_read_def by (rule read_channels_frame)
  moreover have "file_store (snd (example_run lib w)) = file_store w"
    and "stdout (snd (example_run lib w)) = stdout w"
    using snd_example_run [of lib w] by auto
  moreover have "file_store (snd (build_single_histogram lib w ntuple_paths pos_in_file var bins wgt sel)) =
     file_store w
   \<and> stdout (snd (build_single_histogram lib w ntuple_paths pos_in_file var bins wgt sel)) = stdout w"
  proof (cases "var \<noteq> ''weight'' \<and> sorted bins \<and> bins \<noteq> []")
    case True
    then show ?thesis by (simp add: snd_build_single_histogram)
  next
    case False
    then show ?thesis
      using build_single_histogram_rejected [OF False, of wgt sel lib w ntuple_paths pos_in_file]
      by auto
  qed
  ultimately show ?thesis by simp
qed

section \<open>What process fills\<close>

lemma fill_args_no_filter:
  "selection_filter t = None \<Longrightarrow> fill_args lib events ch t = Inl (Implicit TypeError)"
  by (simp add: fill_args_def py_eval_def)

lemma fill_template_no_filter:
  "selection_filter t = None \<Longrightarrow> fill_template lib events ch out t = Inl (Implicit TypeError)"
  by (simp add: fill_template_def fill_args_no_filter)

lemma template_loop_filters:
  "template_loop lib events ch out ts = Inr out' \<Longrightarrow> t \<in> set ts \<Longrightarrow> selection_filter t \<noteq> None"
proof (induction ts arbitrary: out)
  case Nil
  then show ?case by simp
next
  case (Cons a ts)
  then show ?case
    by (cases "selection_filter a") (auto simp: fill_template_no_filter split: sum.splits)
qed

lemma channel_loop_filters:
  "channel_loop lib self events out chs = Inr out' \<Longrightarrow> chs \<noteq> [] \<Longrightarrow>
     \<exists>ts. map_of (template_info self) (metadata_dataset events) = Some ts
        \<and> (\<forall>t\<in>set ts. selection_filter t \<noteq> None)"
  by (cases chs) (auto split: option.splits sum.splits dest: template_loop_filters)

lemma as_num_ones: "as_num (np_ones n) = replicate n 1"
  by (simp add: np_ones_def)

lemma length_as_num: "length (as_num a) = len a"
  by (cases a) simp_all

lemma fill_args_expected:
  assumes "fill_args lib events ch t = Inr (weights, observables)"
  shows "expected_fill lib events ch t =
       \<lparr>fill_dataset = metadata_dataset events, fill_template = t_name t,
        fill_weight = as_num weights, fill_values = as_num observables\<rparr>"
proof -
  obtain s where s: "selection_filter t = Some s"
    using assms fill_args_no_filter [of t lib events ch] by (cases "selection_filter t") auto
  obtain a where a: "expression lib s (rows events) = Some a"
    using assms s by (cases "expression lib s (rows events)") (auto simp: fill_args_def py_eval_def)
  obtain chosen where c: "indexing lib (rows events) a = Some chosen"
    using assms s a
    by (cases "indexing lib (rows events) a") (auto simp: fill_args_def py_eval_def getitem_def)
  have sel: "selected lib events t = chosen"
    by (simp add: selected_def s a c)
  obtain obs where obs: "expression lib (variable ch) chosen = Some obs"
    using assms s a c
    by (cases "expression lib (variable ch) chosen") (auto simp: fill_args_def py_eval_def getitem_def)
  have o: "observables = obs"
    using assms s a c obs
    by (auto simp: fill_args_def py_eval_def getitem_def split: option.splits sum.splits)
  have col: "column_values lib (variable ch) chosen = as_num obs"
    by (simp add: column_values_def obs)
  show ?thesis
  proof (cases "weight t")
    case None
    then have "weights = np_ones (len obs)"
      using assms s a c obs by (auto simp: fill_args_def py_eval_def getitem_def)
    then show ?thesis
      by (simp add: expected_fill_def sel col None o as_num_ones length_as_num)
  next
    case (Some wx)
    then have "expression lib wx chosen = Some weights"
      using assms s a c obs
      by (auto simp: fill_args_def py_eval_def getitem_def split: option.splits sum.splits)
    then have "column_values lib wx chosen = as_num weights"
      by (simp add: column_values_def)
    then show ?thesis
      by (simp add: expected_fill_def sel col Some o)
  qed
qed

lemma fill_template_expected:
  assumes "fill_template lib events ch out t = Inr out'"
  shows "\<exists>h. out (ch_name ch) = Some h \<and>
           out' = out(ch_name ch \<mapsto> h\<lparr>fills := fills h @ [expected_fill lib events ch t]\<rparr>)"
proof -
  obtain weights observables where fa: "fill_args lib events ch t = Inr (weights, observables)"
    using assms by (cases "fill_args lib events ch t") (auto simp: fill_template_def)
  obtain h where h: "out (ch_name ch) = Some h"
    using assms fa by (cases "out (ch_name ch)") (auto simp: fill_template_def)
  have "out' = out(ch_name ch \<mapsto> h\<lparr>fills := fills h @
      [\<lparr>fill_dataset = metadata_dataset events, fill_template = t_name t,
        fill_weight = as_num weights, fill_values = as_num observables\<rparr>]\<rparr>)"
    using assms fa h by (auto simp: fill_template_def fill_def split: if_splits)
  then show ?thesis
    using h fill_args_expected [OF fa] by simp
qed

lemma template_loop_expected:
  "template_loop lib events ch out ts = Inr out' \<Longrightarrow>
     out' = append_fills out (ch_name ch) (map (expected_fill lib events ch) ts)"
proof (induction ts arbitrary: out)
  case Nil
  then show ?case
    by (auto simp: append_fills_def fun_eq_iff option.map_ident map_option_case split: option.splits)
next
  case (Cons t ts)
  obtain out1 where o1: "fill_template lib events ch out t = Inr out1"
    and rest: "template_loop lib events ch out1 ts = Inr out'"
    using Cons.prems by (auto split: sum.splits)
  obtain h where h: "out (ch_name ch) = Some h"
    and out1: "out1 = out(ch_name ch \<mapsto> h\<lparr>fills := fills h @ [expected_fill lib events ch t]\<rparr>)"
    using fill_template_expected [OF o1] by blast
  have "out' = append_fills out1 (ch_name ch) (map (expected_fill lib events ch) ts)"
    using Cons.IH [OF rest] .
  then show ?case
    by (auto simp: out1 h append_fills_def fun_eq_iff)
qed

lemma expected_fills_Cons:
  "expected_fills lib events (ch # chs) ts n =
     (if ch_name ch = n then map (expected_fill lib events ch) ts else []) @
     expected_fills lib events chs ts n"
  by (simp add: expected_fills_def)

lemma channel_loop_expected:
  "channel_loop lib self events out chs = Inr out' \<Longrightarrow>
   map_of (template_info self) (metadata_dataset events) = Some ts \<Longrightarrow>
     out' = (\<lambda>n. map_option (\<lambda>h. h\<lparr>fills := fills h @ expected_fills lib events chs ts n\<rparr>) (out n))"
proof (induction chs arbitrary: out)
  case Nil
  then show ?case
    by (auto simp: expected_fills_def fun_eq_iff option.map_ident map_option_case split: option.splits)
next
  case (Cons ch chs)
  obtain out1 where o1: "template_loop lib events ch out ts = Inr out1"
    and rest: "channel_loop lib self events out1 chs = Inr out'"
    using Cons.prems by (auto split: sum.splits)
  have out1: "out1 = append_fills out (ch_name ch) (map (expected_fill lib events ch) ts)"
    using template_loop_expected [OF o1] .
  have "out' = (\<lambda>n. map_option (\<lambda>h. h\<lparr>fills := fills h @ expected_fills lib events chs ts n\<rparr>) (out1 n))"
    using Cons.IH [OF rest Cons.prems(2)] .
  then show ?case
    by (auto simp: out1 append_fills_def fun_eq_iff expected_fills_Cons option.map_comp o_def)
qed

lemma process_expected:
  "process lib self events = Inr out \<Longrightarrow>
   map_of (template_info self) (metadata_dataset events) = Some ts \<Longrightarrow>
     out = (\<lambda>n. map_option (\<lambda>h. h\<lparr>fills := expected_fills lib events (channel_info self) ts n\<rparr>)
                 (accumulator self n))"
  unfolding process_def
  by (drule channel_loop_expected, assumption)
     (simp add: identity_def fun_eq_iff option.map_comp o_def)

lemma accumulator_foldl:
  "ch \<in> set chs \<Longrightarrow>
     \<exists>h. foldl (\<lambda>acc c. acc(ch_name c \<mapsto> empty_hist c)) acc0 chs (ch_name ch) = Some h"
  by (induction chs arbitrary: acc0 rule: rev_induct) auto

lemma accumulator_foldl_notin:
  "n \<notin> ch_name ` set chs \<Longrightarrow>
     foldl (\<lambda>acc c. acc(ch_name c \<mapsto> empty_hist c)) acc0 chs n = acc0 n"
  by (induction chs arbitrary: acc0) auto

lemma accumulator_foldl_distinct:
  "ch \<in> set chs \<Longrightarrow> distinct (map ch_name chs) \<Longrightarrow>
     foldl (\<lambda>acc c. acc(ch_name c \<mapsto> empty_hist c)) acc0 chs (ch_name ch) = Some (empty_hist ch)"
  by (induction chs arbitrary: acc0) (auto simp: accumulator_foldl_notin)

lemma expected_fills_distinct:
  "ch \<in> set chs \<Longrightarrow> distinct (map ch_name chs) \<Longrightarrow>
     expected_fills lib events chs ts (ch_name ch) = map (expected_fill lib events ch) ts"
proof (induction chs)
  case Nil
  then show ?case by simp
next
  case (Cons c chs)
  show ?case
  proof (cases "c = ch")
    case True
    have "ch_name ch \<notin> ch_name ` set chs"
      using Cons.prems(2) True by simp
    then have "\<forall>x\<in>set chs. ch_name x \<noteq> ch_name ch"
      by (metis imageI)
    then have "filter (\<lambda>c'. ch_name c' = ch_name ch) chs = []"
      by (simp add: filter_empty_conv)
    then show ?thesis by (simp add: expected_fills_def True)
  next
    case False
    then have "ch_name c \<noteq> ch_name ch" using Cons.prems by force
    then show ?thesis using Cons False by (simp add: expected_fills_Cons)
  qed
qed

lemma MyProcessor_fields:
  assumes "MyProcessor (Some chs) (Some ti) = Inr self"
  shows "channel_info self = chs" "template_info self = ti"
    "accumulator self = foldl (\<lambda>acc c. acc(ch_name c \<mapsto> empty_hist c)) Map.empty chs"
  using assms MyProcessor_Inr [of chs ti self] by auto

text \<open>
  Claim C2. A processor built by the constructor and run on a chunk of the dataset \<open>d\<close>
  fills the histogram of every channel once for every template of
  \<^verbatim>\<open>template_info[d]\<close>: after \<^verbatim>\<open>process\<close> has returned, the histogram stored under the
  name of a channel holds, in the order of the loops, one fill for every pair of a
  channel of that name and a template of the dataset, and each of these fills applies the
  template's selection filter to the events of the chunk and the template's weight to
  the selected events. With channel names that differ, that is exactly one fill per
  template. One call of \<^verbatim>\<open>process\<close> so covers all channels and all templates.
\<close>

theorem process_fills_every_pair:
  assumes "MyProcessor (Some chs) (Some ti) = Inr self"
    and "process lib self events = Inr out"
    and "ch \<in> set chs"
  shows "\<exists>h ts. map_of ti (metadata_dataset events) = Some ts
           \<and> out (ch_name ch) = Some h
           \<and> fills h = expected_fills lib events chs ts (ch_name ch)
           \<and> (distinct (map ch_name chs) \<longrightarrow> fills h = map (expected_fill lib events ch) ts)"
proof -
  note self = MyProcessor_fields [OF assms(1)]
  have "chs \<noteq> []" using assms(3) by auto
  then obtain ts where ts: "map_of ti (metadata_dataset events) = Some ts"
    using assms(2) channel_loop_filters [of lib self events _ chs out] self
    by (auto simp: process_def)
  obtain h0 where h0: "accumulator self (ch_name ch) = Some h0"
    using accumulator_foldl [OF assms(3)] self by auto
  let ?h = "h0\<lparr>fills := expected_fills lib events chs ts (ch_name ch)\<rparr>"
  have "out (ch_name ch) = Some ?h"
    using process_expected [OF assms(2)] ts self h0 by simp
  then show ?thesis
    using ts expected_fills_distinct [OF assms(3)] by auto
qed

lemma demo_fields:
  "ch_name demo_channel = ''c''" "variable demo_channel = ''x''"
  "binning demo_channel = [0, 3 / 2, 3]"
  "ch_name demo_channel2 = ''c2''" "variable demo_channel2 = ''w''"
  "binning demo_channel2 = [0, 5 / 2, 5]"
  "metadata_dataset demo_events = ''d''"
  "t_name (demo_template n wgt) = n" "weight (demo_template n wgt) = wgt"
  by (simp_all add: demo_channel_def demo_channel2_def demo_events_def demo_template_def)

lemma MyProcessor_demo:
  "MyProcessor (Some [demo_channel, demo_channel2]) (Some [(''d'', demo_templates)]) =
     Inr demo_processor"
  by (simp add: MyProcessor_def new_hist_def demo_processor_def demo_fields)

lemma demo_fill_args_weighted:
  "fill_args demo_lib demo_events demo_channel (demo_template n (Some ''w'')) =
     Inr (FloatArray [3, 2], FloatArray [1, 2])"
  by (simp add: fill_args_def py_eval_def getitem_def demo_lib_def demo_expression_def
      demo_events_def demo_channel_def demo_template_def)

lemma demo_fill_args_unweighted:
  "fill_args demo_lib demo_events demo_channel (demo_template n None) =
     Inr (FloatArray [1, 1], FloatArray [1, 2])"
  by (simp add: fill_args_def py_eval_def getitem_def demo_lib_def demo_expression_def
      demo_events_def demo_channel_def demo_template_def np_ones_def)

lemma demo_fill_args_weighted2:
  "fill_args demo_lib demo_events demo_channel2 (demo_template n (Some ''w'')) =
     Inr (FloatArray [3, 2], FloatArray [3, 2])"
  by (simp add: fill_args_def py_eval_def getitem_def demo_lib_def demo_expression_def
      demo_events_def demo_channel2_def demo_template_def)

lemma demo_fill_args_unweighted2:
  "fill_args demo_lib demo_events demo_channel2 (demo_template n None) =
     Inr (FloatArray [1, 1], FloatArray [3, 2])"
  by (simp add: fill_args_def py_eval_def getitem_def demo_lib_def demo_expression_def
      demo_events_def demo_channel2_def demo_template_def np_ones_def)

lemma demo_process: "\<exists>out. process demo_lib demo_processor demo_events = Inr out"
  by (simp add: process_def demo_processor_def demo_templates_def fill_template_def
      demo_fill_args_weighted demo_fill_args_unweighted demo_fill_args_weighted2
      demo_fill_args_unweighted2 identity_def fill_def empty_hist_def demo_fields)

lemma demo_expected_weighted:
  "expected_fill demo_lib demo_events demo_channel (demo_template n (Some ''w'')) =
     \<lparr>fill_dataset = ''d'', fill_template = n, fill_weight = [3, 2], fill_values = [1, 2]\<rparr>"
  using fill_args_expected [OF demo_fill_args_weighted [of n]]
  by (simp add: demo_events_def demo_template_def)

lemma demo_expected_unweighted:
  "expected_fill demo_lib demo_events demo_channel (demo_template n None) =
     \<lparr>fill_dataset = ''d'', fill_template = n, fill_weight = [1, 1], fill_values = [1, 2]\<rparr>"
  using fill_args_expected [OF demo_fill_args_unweighted [of n]]
  by (simp add: demo_events_def demo_template_def)

lemma demo_expected_weighted2:
  "expected_fill demo_lib demo_events demo_channel2 (demo_template n (Some ''w'')) =
     \<lparr>fill_dataset = ''d'', fill_template = n, fill_weight = [3, 2], fill_values = [3, 2]\<rparr>"
  using fill_args_expected [OF demo_fill_args_weighted2 [of n]]
  by (simp add: demo_events_def demo_template_def)

lemma demo_expected_unweighted2:
  "expected_fill demo_lib demo_events demo_channel2 (demo_template n None) =
     \<lparr>fill_dataset = ''d'', fill_template = n, fill_weight = [1, 1], fill_values = [3, 2]\<rparr>"
  using fill_args_expected [OF demo_fill_args_unweighted2 [of n]]
  by (simp add: demo_events_def demo_template_def)

theorem process_fills_every_pair_witness:
  "\<exists>out h h2. process demo_lib demo_processor demo_events = Inr out
     \<and> out ''c'' = Some h
     \<and> fills h =
         [\<lparr>fill_dataset = ''d'', fill_template = ''weighted'', fill_weight = [3, 2],
           fill_values = [1, 2]\<rparr>,
          \<lparr>fill_dataset = ''d'', fill_template = ''unweighted'', fill_weight = [1, 1],
           fill_values = [1, 2]\<rparr>]
     \<and> out ''c2'' = Some h2
     \<and> fills h2 =
         [\<lparr>fill_dataset = ''d'', fill_template = ''weighted'', fill_weight = [3, 2],
           fill_values = [3, 2]\<rparr>,
          \<lparr>fill_dataset = ''d'', fill_template = ''unweighted'', fill_weight = [1, 1],
           fill_values = [3, 2]\<rparr>]"
proof -
  obtain out where out: "process demo_lib demo_processor demo_events = Inr out"
    using demo_process by blast
  have ch: "demo_channel \<in> set [demo_channel, demo_channel2]"
    and ch2: "demo_channel2 \<in> set [demo_channel, demo_channel2]" by simp_all
  have d: "distinct (map ch_name [demo_channel, demo_channel2])" by (simp add: demo_fields)
  obtain h ts where "map_of [(''d'', demo_templates)] (metadata_dataset demo_events) = Some ts"
    and "out (ch_name demo_channel) = Some h"
    and "distinct (map ch_name [demo_channel, demo_channel2]) \<longrightarrow>
           fills h = map (expected_fill demo_lib demo_events demo_channel) ts"
    using process_fills_every_pair [OF MyProcessor_demo out ch] by blast
  then have one: "out ''c'' = Some h
      \<and> fills h = map (expected_fill demo_lib demo_events demo_channel) demo_templates"
    using d by (auto simp: demo_fields)
  obtain h2 ts2 where "map_of [(''d'', demo_templates)] (metadata_dataset demo_events) = Some ts2"
    and "out (ch_name demo_channel2) = Some h2"
    and "distinct (map ch_name [demo_channel, demo_channel2]) \<longrightarrow>
           fills h2 = map (expected_fill demo_lib demo_events demo_channel2) ts2"
    using process_fills_every_pair [OF MyProcessor_demo out ch2] by blast
  then have two: "out ''c2'' = Some h2
      \<and> fills h2 = map (expected_fill demo_lib demo_events demo_channel2) demo_templates"
    using d by (auto simp: demo_fields)
  show ?thesis
    using out one two
    by (auto simp: demo_templates_def demo_expected_weighted demo_expected_unweighted
        demo_expected_weighted2 demo_expected_unweighted2)
qed

section \<open>The selection filter is always evaluated\<close>

lemma process_single_no_filter:
  "\<exists>e. process lib (processor_instance (single_job ps pos var bins wgt None :: 'a job)) c = Inl e"
  by (simp add: process_def single_job_def single_template_def fill_template_no_filter
      split: option.splits)

lemma identity_single:
  "identity (accumulator (processor_instance (single_job ps pos var bins wgt sel))) =
     [''generic_channel_name'' \<mapsto> empty_hist (single_channel var bins)]"
  by (auto simp: identity_def single_job_def fun_eq_iff empty_hist_def)

lemma hist_values_empty: "fills h = [] \<Longrightarrow> hist_values h key = Inl (Implicit KeyError)"
  by (simp add: hist_values_def fills_of_def)

lemma build_single_histogram_no_filter:
  "\<exists>e. fst (build_single_histogram lib w ps pos var bins wgt None) = Inl e"
proof (cases "var \<noteq> ''weight'' \<and> sorted bins \<and> bins \<noteq> []")
  case False
  then show ?thesis
    using build_single_histogram_rejected [OF False, of wgt None lib w ps pos] by auto
next
  case True
  note eq = build_single_histogram_eq [OF True]
  let ?j = "single_job ps pos var bins wgt None :: 'a job"
  show ?thesis
  proof (cases "fileset_chunks (file_store w) (job_treename ?j) (fileset ?j)")
    case (Inl e)
    then show ?thesis
      by (simp add: eq run_uproot_job_def single_result_def)
  next
    case (Inr items)
    show ?thesis
    proof (cases items)
      case Nil
      have "executor ?j = iterative_executor" by (simp add: single_job_def)
      then show ?thesis
        using Inr Nil
        by (simp add: eq run_uproot_job_def single_result_def
            identity_single postprocess_def hist_values_empty empty_hist_def)
    next
      case (Cons c cs)
      obtain e where e: "process lib (processor_instance ?j) c = Inl e"
        using process_single_no_filter by blast
      have "executor ?j = iterative_executor" by (simp add: single_job_def)
      then show ?thesis
        using Inr Cons e
        by (simp add: eq run_uproot_job_def single_result_def)
    qed
  qed
qed

text \<open>
  Claim C7 as stated does not hold of every processor: with no channels the loops have
  no round, so \<^verbatim>\<open>process\<close> returns although the only template of the dataset has the
  selection filter \<^verbatim>\<open>None\<close>.
\<close>

theorem no_channel_counterexample:
  "MyProcessor (Some [])
     (Some [(''d'', [\<lparr>t_name = ''t'', weight = None, selection_filter = None\<rparr>])]) =
     Inr no_channel_processor
   \<and> metadata_dataset demo_events = ''d''
   \<and> process demo_lib no_channel_processor demo_events = Inr Map.empty"
  by (simp add: MyProcessor_def no_channel_processor_def process_def identity_def demo_fields)

text \<open>
  Claim C7, amended. The body of the template loop evaluates the selection filter
  without any test, so a template whose filter is \<^verbatim>\<open>None\<close> makes it raise the
  \<^verbatim>\<open>TypeError\<close> of \<^verbatim>\<open>eval\<close>. Whenever the processor has at least one channel,
  \<^verbatim>\<open>process\<close> therefore returns only if every template of the chunk's dataset has a
  filter that is not \<^verbatim>\<open>None\<close>. \<^verbatim>\<open>build_single_histogram\<close> called with the selection
  filter \<^verbatim>\<open>None\<close>, the default of its signature, never returns a histogram. The weight
  is different: a weight \<^verbatim>\<open>None\<close> has a branch of its own, which yields weights of one.
\<close>

theorem selection_filter_required:
  "(selection_filter t = None \<longrightarrow> fill_template lib events ch out t = Inl (Implicit TypeError))
   \<and> (channel_info self \<noteq> [] \<and> process lib self events = Inr out' \<longrightarrow>
        (\<exists>ts. map_of (template_info self) (metadata_dataset events) = Some ts
           \<and> (\<forall>t\<in>set ts. selection_filter t \<noteq> None)))
   \<and> (\<exists>e. fst (build_single_histogram lib w ntuple_paths pos_in_file var bins wgt None) = Inl e)
   \<and> (weight t = None \<and> fill_args lib events ch t = Inr (weights, observables) \<longrightarrow>
        weights = np_ones (len observables))"
proof -
  have "selection_filter t = None \<longrightarrow> fill_template lib events ch out t = Inl (Implicit TypeError)"
    by (simp add: fill_template_no_filter)
  moreover have "channel_info self \<noteq> [] \<and> process lib self events = Inr out' \<longrightarrow>
        (\<exists>ts. map_of (template_info self) (metadata_dataset events) = Some ts
           \<and> (\<forall>t\<in>set ts. selection_filter t \<noteq> None))"
    using channel_loop_filters [of lib self events _ "channel_info self" out']
    by (auto simp: process_def)
  moreover have "\<exists>e. fst (build_single_histogram lib w ntuple_paths pos_in_file var bins wgt None) = Inl e"
    by (rule build_single_histogram_no_filter)
  moreover have "weight t = None \<and> fill_args lib events ch t = Inr (weights, observables) \<longrightarrow>
        weights = np_ones (len observables)"
    by (auto simp: fill_args_def split: sum.splits)
  ultimately show ?thesis by blast
qed

theorem selection_filter_required_witness:
  "fill_template demo_lib demo_events demo_channel Map.empty
      \<lparr>t_name = ''t'', weight = None, selection_filter = None\<rparr> = Inl (Implicit TypeError)
   \<and> (\<exists>out ts. process demo_lib demo_processor demo_events = Inr out
         \<and> map_of (template_info demo_processor) ''d'' = Some ts
         \<and> list_all (\<lambda>t. selection_filter t \<noteq> None) ts)
   \<and> fill_args demo_lib demo_events demo_channel (demo_template ''unweighted'' None) =
       Inr (np_ones 2, FloatArray [1, 2])"
proof -
  let ?t = "\<lparr>t_name = ''t'', weight = None, selection_filter = None\<rparr>"
  obtain out where out: "process demo_lib demo_processor demo_events = Inr out"
    using demo_process by blast
  have ne: "channel_info demo_processor \<noteq> []" by (simp add: demo_processor_def)
  have fa: "fill_args demo_lib demo_events demo_channel (demo_template ''unweighted'' None) =
       Inr (FloatArray [1, 1], FloatArray [1, 2])"
    by (rule demo_fill_args_unweighted)
  have "fill_template demo_lib demo_events demo_channel Map.empty ?t = Inl (Implicit TypeError)"
    using selection_filter_required [of ?t demo_lib demo_events demo_channel Map.empty] by simp
  moreover have "\<exists>ts. map_of (template_info demo_processor) (metadata_dataset demo_events) = Some ts
           \<and> (\<forall>t\<in>set ts. selection_filter t \<noteq> None)"
    using selection_filter_required [of _ demo_lib demo_events _ _ demo_processor out] ne out
    by blast
  moreover have "FloatArray [1, 1] = np_ones (len (FloatArray [1, 2]))"
    using selection_filter_required [of "demo_template ''unweighted'' None" demo_lib demo_events
        demo_channel _ _ _ _ _ _ _ _ _ "FloatArray [1, 1]" "FloatArray [1, 2]"] fa
    by (simp add: demo_fields)
  ultimately show ?thesis
    using out fa by (auto simp: demo_fields list_all_iff numeral_2_eq_2)
qed

section \<open>Templates without weight\<close>

lemma unit_weights_count:
  "sum_list (map (\<lambda>(x, w). if in_bin es b x then w else 0) (zip xs (replicate (length xs) (1::real)))) =
     real (length (filter (in_bin es b) xs))"
  by (induction xs) simp_all

lemma fill_sumw_unweighted:
  "weight t = None \<Longrightarrow>
     fill_sumw es b (expected_fill lib events ch t) =
       real (length (filter (in_bin es b) (column_values lib (variable ch) (selected lib events t))))"
  by (simp add: fill_sumw_def expected_fill_def unit_weights_count)

lemma filter_distinct_key:
  "distinct (map f xs) \<Longrightarrow> x \<in> set xs \<Longrightarrow> filter (\<lambda>y. f y = f x) xs = [x]"
proof (induction xs)
  case Nil
  then show ?case by simp
next
  case (Cons a xs)
  show ?case
  proof (cases "x = a")
    case True
    have "f a \<notin> f ` set xs" using Cons.prems(1) by simp
    then have "\<forall>y\<in>set xs. f y \<noteq> f a" by (metis imageI)
    then have "filter (\<lambda>y. f y = f a) xs = []" by (simp add: filter_empty_conv)
    then show ?thesis using True by simp
  next
    case False
    then have "x \<in> set xs" using Cons.prems(2) by simp
    moreover have "f a \<noteq> f x" using Cons.prems(1) \<open>x \<in> set xs\<close> by force
    ultimately show ?thesis using Cons by simp
  qed
qed

lemma fills_of_expected:
  assumes "fills h = map (expected_fill lib events ch) ts"
    and "distinct (map t_name ts)" and "t \<in> set ts"
  shows "fills_of h (metadata_dataset events, t_name t) = [expected_fill lib events ch t]"
proof -
  have "fills_of h (metadata_dataset events, t_name t) =
      map (expected_fill lib events ch) (filter (\<lambda>t'. t_name t' = t_name t) ts)"
    by (simp add: fills_of_def assms(1) filter_map o_def expected_fill_def)
  then show ?thesis
    using filter_distinct_key [OF assms(2,3)] by simp
qed

lemma process_hist:
  assumes "MyProcessor (Some chs) (Some ti) = Inr self"
    and "process lib self events = Inr out"
    and "ch \<in> set chs" and "distinct (map ch_name chs)"
    and "map_of ti (metadata_dataset events) = Some ts"
  shows "out (ch_name ch) = Some ((empty_hist ch)\<lparr>fills := map (expected_fill lib events ch) ts\<rparr>)"
proof -
  note self = MyProcessor_fields [OF assms(1)]
  have "accumulator self (ch_name ch) = Some (empty_hist ch)"
    using accumulator_foldl_distinct [OF assms(3,4)] self by simp
  then show ?thesis
    using process_expected [OF assms(2)] assms(5) self
      expected_fills_distinct [OF assms(3,4), of lib events ts]
    by simp
qed

lemma MyProcessor_same_name:
  "MyProcessor (Some [demo_channel]) (Some [(''d'', same_name_templates)]) = Inr same_name_processor"
  by (simp add: MyProcessor_def new_hist_def same_name_processor_def demo_fields)

lemma same_name_process:
  "process demo_lib same_name_processor demo_events = Inr [''c'' \<mapsto> same_name_hist]"
  by (simp add: process_def same_name_processor_def same_name_templates_def fill_template_def
      demo_fill_args_weighted demo_fill_args_unweighted identity_def fill_def empty_hist_def
      same_name_hist_def demo_fields fun_eq_iff)

lemma same_name_values:
  "hist_values same_name_hist (''d'', ''same'') = Inr ([4, 3], [10, 5])"
proof -
  have up: "[0..<2] = [0, Suc 0]" by (simp add: upt_rec)
  show ?thesis
    by (simp add: hist_values_def fills_of_def same_name_hist_def empty_hist_def demo_fields
        bin_sumw_def bin_sumw2_def fill_sumw_def fill_sumw2_def in_bin_def up)
qed

lemma same_name_count:
  "length (filter (in_bin [0, 3 / 2, 3] 0)
     (column_values demo_lib ''x'' (selected demo_lib demo_events (demo_template ''same'' None)))) = 1"
  using demo_expected_unweighted [of "''same''"]
  by (simp add: expected_fill_def demo_fields in_bin_def)

text \<open>
  Claim C8 as stated does not hold of every processor: with two templates of one name,
  the first without weight, the yield stored for that name in the first bin is 4, the
  unweighted template's one selected event plus the weight 3 of the other template,
  where the count of selected events in the bin is 1.
\<close>

theorem same_name_counterexample:
  "MyProcessor (Some [demo_channel]) (Some [(''d'', same_name_templates)]) = Inr same_name_processor
   \<and> process demo_lib same_name_processor demo_events = Inr [''c'' \<mapsto> same_name_hist]
   \<and> weight (demo_template ''same'' None) = None
   \<and> hist_values same_name_hist (''d'', ''same'') = Inr ([4, 3], [10, 5])
   \<and> length (filter (in_bin [0, 3 / 2, 3] 0)
        (column_values demo_lib ''x'' (selected demo_lib demo_events (demo_template ''same'' None)))) = 1"
  by (simp add: MyProcessor_same_name same_name_process same_name_values same_name_count demo_fields)

text \<open>
  Claim C8, amended. For a template whose weight is \<^verbatim>\<open>None\<close>, \<^verbatim>\<open>process\<close> takes
  \<^verbatim>\<open>np.ones(len(observables))\<close> as weights, a weight of one for every selected event. The
  fill of such a template adds to every bin the number of selected events whose
  observable lies in the bin. Where the names of the channels differ and the names of
  the dataset's templates differ, the yield of the template in a bin of the histogram
  that \<^verbatim>\<open>process\<close> returns is that count; templates of one name share one yield.
\<close>

theorem unweighted_yield_is_count:
  "(weight t = None \<and> fill_args lib events ch t = Inr (weights, observables) \<longrightarrow>
      weights = np_ones (len observables) \<and> as_num weights = replicate (len observables) 1)
   \<and> (weight t = None \<longrightarrow>
        fill_sumw es b (expected_fill lib events ch t) =
          real (length (filter (in_bin es b) (fill_values (expected_fill lib events ch t)))))
   \<and> (MyProcessor (Some chs) (Some ti) = Inr self \<and> process lib self events = Inr out
        \<and> ch \<in> set chs \<and> distinct (map ch_name chs)
        \<and> map_of ti (metadata_dataset events) = Some ts
        \<and> t \<in> set ts \<and> distinct (map t_name ts) \<and> weight t = None
        \<and> b < length (binning ch) - 1 \<longrightarrow>
        (\<exists>h yields variance. out (ch_name ch) = Some h
           \<and> hist_values h (metadata_dataset events, t_name t) = Inr (yields, variance)
           \<and> yields ! b =
               real (length (filter (in_bin (binning ch) b)
                       (column_values lib (variable ch) (selected lib events t))))))"
proof -
  have one: "weight t = None \<and> fill_args lib events ch t = Inr (weights, observables) \<longrightarrow>
      weights = np_ones (len observables) \<and> as_num weights = replicate (len observables) 1"
    by (auto simp: fill_args_def as_num_ones split: sum.splits)
  have two: "weight t = None \<longrightarrow>
        fill_sumw es b (expected_fill lib events ch t) =
          real (length (filter (in_bin es b) (fill_values (expected_fill lib events ch t))))"
    using fill_sumw_unweighted [of t es b lib events ch] by (simp add: expected_fill_def)
  have three: "\<exists>h yields variance. out (ch_name ch) = Some h
           \<and> hist_values h (metadata_dataset events, t_name t) = Inr (yields, variance)
           \<and> yields ! b =
               real (length (filter (in_bin (binning ch) b)
                       (column_values lib (variable ch) (selected lib events t))))"
    if a: "MyProcessor (Some chs) (Some ti) = Inr self" "process lib self events = Inr out"
      "ch \<in> set chs" "distinct (map ch_name chs)"
      "map_of ti (metadata_dataset events) = Some ts"
      and t: "t \<in> set ts" "distinct (map t_name ts)" "weight t = None"
      and b: "b < length (binning ch) - 1"
  proof -
    let ?h = "(empty_hist ch)\<lparr>fills := map (expected_fill lib events ch) ts\<rparr>"
    let ?f = "expected_fill lib events ch t"
    have h: "out (ch_name ch) = Some ?h"
      using process_hist [OF a] .
    have fo: "fills_of ?h (metadata_dataset events, t_name t) = [?f]"
      by (rule fills_of_expected [OF _ t(2) t(1)]) simp
    have e: "edges ?h = binning ch" by (simp add: empty_hist_def)
    have hv: "hist_values ?h (metadata_dataset events, t_name t) =
        Inr (map (bin_sumw (binning ch) [?f]) [0..<length (binning ch) - 1],
             map (bin_sumw2 (binning ch) [?f]) [0..<length (binning ch) - 1])"
      by (simp add: hist_values_def fo e Let_def)
    have "map (bin_sumw (binning ch) [?f]) [0..<length (binning ch) - 1] ! b =
        real (length (filter (in_bin (binning ch) b)
                       (column_values lib (variable ch) (selected lib events t))))"
      using b t(3) by (simp add: bin_sumw_def fill_sumw_unweighted)
    then show ?thesis using h hv by blast
  qed
  show ?thesis
    using one two three by blast
qed

theorem unweighted_yield_is_count_witness:
  "\<exists>out h yields variance.
      process demo_lib demo_processor demo_events = Inr out
    \<and> out ''c'' = Some h
    \<and> hist_values h (''d'', ''unweighted'') = Inr (yields, variance)
    \<and> yields ! 0 = 1"
proof -
  let ?t = "demo_template ''unweighted'' None"
  let ?chs = "[demo_channel, demo_channel2]"
  obtain out where out: "process demo_lib demo_processor demo_events = Inr out"
    using demo_process by blast
  have col: "column_values demo_lib ''x'' (selected demo_lib demo_events ?t) = [1, 2]"
    using demo_expected_unweighted [of "''unweighted''"] by (simp add: expected_fill_def demo_fields)
  have "MyProcessor (Some ?chs) (Some [(''d'', demo_templates)]) = Inr demo_processor
        \<and> process demo_lib demo_processor demo_events = Inr out
        \<and> demo_channel \<in> set ?chs \<and> distinct (map ch_name ?chs)
        \<and> map_of [(''d'', demo_templates)] (metadata_dataset demo_events) = Some demo_templates
        \<and> ?t \<in> set demo_templates \<and> distinct (map t_name demo_templates) \<and> weight ?t = None
        \<and> 0 < length (binning demo_channel) - 1"
    using out MyProcessor_demo by (simp add: demo_fields) (simp add: demo_templates_def demo_fields)
  then have "\<exists>h yields variance. out (ch_name demo_channel) = Some h
           \<and> hist_values h (metadata_dataset demo_events, t_name ?t) = Inr (yields, variance)
           \<and> yields ! 0 =
               real (length (filter (in_bin (binning demo_channel) 0)
                       (column_values demo_lib (variable demo_channel) (selected demo_lib demo_events ?t))))"
    using unweighted_yield_is_count [of ?t demo_lib demo_events demo_channel _ _ _ 0
        ?chs "[(''d'', demo_templates)]" demo_processor out demo_templates]
    by blast
  then show ?thesis
    using out by (auto simp: col demo_fields in_bin_def)
qed

section \<open>What build_single_histogram returns\<close>

lemma file_chunks_dataset:
  "file_chunks st ds tree f = Inr cs \<Longrightarrow> c \<in> set cs \<Longrightarrow> metadata_dataset c = ds"
  by (auto simp: file_chunks_def split: option.splits)

lemma files_chunks_dataset:
  "files_chunks st ds tree fs = Inr cs \<Longrightarrow> c \<in> set cs \<Longrightarrow> metadata_dataset c = ds"
  by (induction fs arbitrary: cs) (auto split: sum.splits dest: file_chunks_dataset)

lemma single_fileset_dataset:
  "fileset_chunks st tn [(ds, s)] = Inr cs \<Longrightarrow> c \<in> set cs \<Longrightarrow> metadata_dataset c = ds"
  by (auto split: sum.splits dest: files_chunks_dataset)

lemma process_single:
  fixes c :: "'a events"
  assumes "var \<noteq> ''weight'' \<and> sorted bins \<and> bins \<noteq> []"
    and "metadata_dataset c = ''generic_name''"
    and "process lib (processor_instance (single_job ps pos var bins wgt sel :: 'a job)) c = Inr out"
  shows "out ''generic_channel_name'' =
    Some ((empty_hist (single_channel var bins))
      \<lparr>fills := [expected_fill lib c (single_channel var bins) (single_template wgt sel)]\<rparr>)"
proof -
  let ?ch = "single_channel var bins"
  have n: "ch_name ?ch = ''generic_channel_name''" by (simp add: single_channel_def)
  have "out (ch_name ?ch) =
      Some ((empty_hist ?ch)\<lparr>fills := map (expected_fill lib c ?ch) [single_template wgt sel]\<rparr>)"
    by (rule process_hist [OF MyProcessor_single [OF assms(1)] assms(3)]) (simp_all add: assms(2))
  then show ?thesis by (simp add: n)
qed

lemma executor_single:
  fixes items :: "'a events list"
  assumes "var \<noteq> ''weight'' \<and> sorted bins \<and> bins \<noteq> []"
    and "\<forall>c\<in>set items. metadata_dataset c = ''generic_name''"
    and "iterative_executor items
           (process lib (processor_instance (single_job ps pos var bins wgt sel :: 'a job))) acc0 =
         Inr result"
    and "acc0 ''generic_channel_name'' = Some h0"
  shows "result ''generic_channel_name'' =
    Some (h0\<lparr>fills := fills h0 @ single_fills lib items var bins wgt sel\<rparr>)"
  using assms(2-)
proof (induction items arbitrary: acc0 h0)
  case Nil
  then show ?case by (simp add: single_fills_def)
next
  case (Cons c cs)
  let ?p = "processor_instance (single_job ps pos var bins wgt sel :: 'a job)"
  let ?f = "expected_fill lib c (single_channel var bins) (single_template wgt sel)"
  obtain out where out: "process lib ?p c = Inr out"
    and rest: "iterative_executor cs (process lib ?p) (add_acc acc0 out) = Inr result"
    using Cons.prems(2) by (auto split: sum.splits)
  have "metadata_dataset c = ''generic_name''" using Cons.prems(1) by simp
  then have o: "out ''generic_channel_name'' = Some ((empty_hist (single_channel var bins))\<lparr>fills := [?f]\<rparr>)"
    using process_single [OF assms(1)] out by blast
  have a: "add_acc acc0 out ''generic_channel_name'' = Some (h0\<lparr>fills := fills h0 @ [?f]\<rparr>)"
    by (simp add: add_acc_def Cons.prems(3) o add_hist_def)
  have "result ''generic_channel_name'' =
      Some (h0\<lparr>fills := fills h0 @ [?f]\<rparr>
        \<lparr>fills := fills (h0\<lparr>fills := fills h0 @ [?f]\<rparr>) @ single_fills lib cs var bins wgt sel\<rparr>)"
    using Cons.IH [OF _ rest a] Cons.prems(1) by simp
  then show ?case by (simp add: single_fills_def)
qed

lemma fills_of_single:
  assumes "\<forall>c\<in>set items. metadata_dataset c = ''generic_name''"
    and "fills h = single_fills lib items var bins wgt sel"
  shows "fills_of h (''generic_name'', ''generic_template_name'') = fills h"
  using assms(1) unfolding fills_of_def assms(2) single_fills_def
  by (induction items) (simp_all add: expected_fill_def single_template_def)

text \<open>
  Claim C9. When \<^verbatim>\<open>build_single_histogram\<close> returns a pair, its first element holds for
  every bin the sum of the weights filled over all chunks of the files, and its second
  element the square root of the sum of the squared weights of the bin: the standard
  deviation, not the variance.
\<close>

theorem returns_standard_deviation:
  assumes "fst (build_single_histogram lib w ntuple_paths pos_in_file var bins wgt sel) = Inr (y, s)"
  shows "\<exists>items.
      fileset_chunks (file_store w) None
        [(''generic_name'', \<lparr>treename = pos_in_file, files = map str ntuple_paths\<rparr>)] = Inr items
    \<and> y = map (bin_sumw bins (single_fills lib items var bins wgt sel)) [0..<length bins - 1]
    \<and> s = map (\<lambda>b. sqrt (bin_sumw2 bins (single_fills lib items var bins wgt sel) b))
            [0..<length bins - 1]"
proof -
  let ?j = "single_job ntuple_paths pos_in_file var bins wgt sel :: 'a job"
  let ?ch = "single_channel var bins"
  let ?key = "(''generic_name'', ''generic_template_name'')"
  have ok: "var \<noteq> ''weight'' \<and> sorted bins \<and> bins \<noteq> []"
  proof (rule ccontr)
    assume "\<not> (var \<noteq> ''weight'' \<and> sorted bins \<and> bins \<noteq> [])"
    then show False
      using assms build_single_histogram_rejected [of var bins wgt sel lib w ntuple_paths pos_in_file]
      by auto
  qed
  note eq = build_single_histogram_eq [OF ok]
  have j: "fileset ?j = [(''generic_name'', \<lparr>treename = pos_in_file, files = map str ntuple_paths\<rparr>)]"
    "job_treename ?j = None" "executor ?j = iterative_executor"
    by (simp_all add: single_job_def)
  from assms obtain items where items: "fileset_chunks (file_store w) None (fileset ?j) = Inr items"
    by (cases "fileset_chunks (file_store w) None (fileset ?j)")
       (auto simp: eq run_uproot_job_def single_result_def j)
  from assms items obtain result where result:
    "iterative_executor items (process lib (processor_instance ?j))
       (identity (accumulator (processor_instance ?j))) = Inr result"
    by (cases "iterative_executor items (process lib (processor_instance ?j))
       (identity (accumulator (processor_instance ?j)))")
       (auto simp: eq run_uproot_job_def single_result_def j)
  have ds: "\<forall>c\<in>set items. metadata_dataset c = ''generic_name''"
    using items single_fileset_dataset unfolding j by blast
  let ?fs = "single_fills lib items var bins wgt sel"
  let ?h = "(empty_hist ?ch)\<lparr>fills := ?fs\<rparr>"
  have "result ''generic_channel_name'' = Some ((empty_hist ?ch)\<lparr>fills := fills (empty_hist ?ch) @ ?fs\<rparr>)"
    by (rule executor_single [OF ok ds result]) (simp add: identity_single)
  then have h: "result ''generic_channel_name'' = Some ?h"
    by (simp add: empty_hist_def)
  have fo: "fills_of ?h ?key = ?fs"
    using fills_of_single [OF ds, of ?h lib var bins wgt sel] by simp
  have e: "edges ?h = bins" by (simp add: empty_hist_def single_channel_def)
  have bsh: "fst (build_single_histogram lib w ntuple_paths pos_in_file var bins wgt sel) =
      (case hist_values ?h ?key of Inl e \<Rightarrow> Inl e
       | Inr (yields, variance) \<Rightarrow> Inr (yields, np_sqrt variance))"
    using items result h
    by (simp add: eq run_uproot_job_def single_result_def j postprocess_def
        split: sum.splits prod.splits)
  have "?fs \<noteq> []"
    using assms bsh by (auto simp: hist_values_def fo Let_def)
  then have "hist_values ?h ?key =
      Inr (map (bin_sumw bins ?fs) [0..<length bins - 1], map (bin_sumw2 bins ?fs) [0..<length bins - 1])"
    by (simp add: hist_values_def fo e Let_def)
  then have "y = map (bin_sumw bins ?fs) [0..<length bins - 1]"
    and "s = map (\<lambda>b. sqrt (bin_sumw2 bins ?fs b)) [0..<length bins - 1]"
    using assms bsh by (auto simp: np_sqrt_def o_def)
  then show ?thesis using items j by auto
qed

lemma demo_chunks:
  "fileset_chunks (file_store demo_world) None
     [(''generic_name'', \<lparr>treename = ''tree'', files = map str [Path ''f.root'']\<rparr>)] =
   Inr [\<lparr>metadata_dataset = ''generic_name'', rows = [(1, 3), (2, 2)]\<rparr>,
        \<lparr>metadata_dataset = ''generic_name'', rows = [(1, 4), (1 / 2, 1)]\<rparr>]"
  by (simp add: demo_world_def file_chunks_def)

lemma demo_process_1:
  "process demo_lib
     (processor_instance (single_job ps pos ''x'' bins (Some ''w'') (Some ''x >= 1'') :: (real \<times> real) job))
     \<lparr>metadata_dataset = ''generic_name'', rows = [(1, 3), (2, 2)]\<rparr> =
   Inr [''generic_channel_name'' \<mapsto>
        (empty_hist (single_channel ''x'' bins))
          \<lparr>fills := [\<lparr>fill_dataset = ''generic_name'', fill_template = ''generic_template_name'',
                      fill_weight = [3, 2], fill_values = [1, 2]\<rparr>]\<rparr>]"
  by (simp add: process_def single_job_def single_channel_def single_template_def
      fill_template_def fill_args_def py_eval_def getitem_def demo_lib_def demo_expression_def
      identity_def fill_def empty_hist_def fun_eq_iff)

lemma demo_process_2:
  "process demo_lib
     (processor_instance (single_job ps pos ''x'' bins (Some ''w'') (Some ''x >= 1'') :: (real \<times> real) job))
     \<lparr>metadata_dataset = ''generic_name'', rows = [(1, 4), (1 / 2, 1)]\<rparr> =
   Inr [''generic_channel_name'' \<mapsto>
        (empty_hist (single_channel ''x'' bins))
          \<lparr>fills := [\<lparr>fill_dataset = ''generic_name'', fill_template = ''generic_template_name'',
                      fill_weight = [4], fill_values = [1]\<rparr>]\<rparr>]"
  by (simp add: process_def single_job_def single_channel_def single_template_def
      fill_template_def fill_args_def py_eval_def getitem_def demo_lib_def demo_expression_def
      identity_def fill_def empty_hist_def fun_eq_iff)

lemma sqrt_25: "sqrt 25 = 5"
  using real_sqrt_abs [of 5] by simp

lemma demo_build_single_histogram:
  "fst (build_single_histogram demo_lib demo_world [Path ''f.root''] ''tree'' ''x'' [0, 3 / 2, 3]
          (Some ''w'') (Some ''x >= 1'')) = Inr ([7, 2], [5, 2])"
proof -
  let ?j = "single_job [Path ''f.root''] ''tree'' ''x'' [0, 3 / 2, 3] (Some ''w'') (Some ''x >= 1'')
              :: (real \<times> real) job"
  have ok: "''x'' \<noteq> ''weight'' \<and> sorted [0, 3 / 2, 3 :: real] \<and> [0, 3 / 2, 3 :: real] \<noteq> []"
    by simp
  have j: "fileset ?j = [(''generic_name'', \<lparr>treename = ''tree'', files = map str [Path ''f.root'']\<rparr>)]"
    "job_treename ?j = None" "executor ?j = iterative_executor"
    by (simp_all add: single_job_def)
  have up: "[0..<2] = [0, Suc 0]" by (simp add: upt_rec)
  show ?thesis
    unfolding build_single_histogram_eq [OF ok] run_uproot_job_def Let_def j demo_chunks
    by (simp add: demo_process_1 demo_process_2 identity_single add_acc_def add_hist_def
        postprocess_def single_result_def hist_values_def fills_of_def empty_hist_def
        single_channel_def bin_sumw_def bin_sumw2_def fill_sumw_def fill_sumw2_def in_bin_def
        np_sqrt_def up sqrt_25)
qed

theorem returns_standard_deviation_witness:
  "fst (build_single_histogram demo_lib demo_world [Path ''f.root''] ''tree'' ''x'' [0, 3 / 2, 3]
          (Some ''w'') (Some ''x >= 1'')) = Inr ([7, 2], [5, 2])
   \<and> (\<exists>items. [5, 2] =
         map (\<lambda>b. sqrt (bin_sumw2 [0, 3 / 2, 3]
                (single_fills demo_lib items ''x'' [0, 3 / 2, 3] (Some ''w'') (Some ''x >= 1'')) b))
           [0..<length [0, 3 / 2, 3 :: real] - 1])"
proof -
  obtain items where "[5, 2] =
         map (\<lambda>b. sqrt (bin_sumw2 [0, 3 / 2, 3]
                (single_fills demo_lib items ''x'' [0, 3 / 2, 3] (Some ''w'') (Some ''x >= 1'')) b))
           [0..<length [0, 3 / 2, 3 :: real] - 1]"
    using returns_standard_deviation [OF demo_build_single_histogram] by auto
  then show ?thesis
    using demo_build_single_histogram by auto
qed

end
